theory Spec2Isabelle
  imports Complex_Main "HOL-Library.Char_ord" "HOL-Library.List_Lexorder"
    "HOL-Library.Product_Lexorder" "HOL-Library.Multiset"
begin

section \<open>Static configuration: the category map\<close>

text \<open>
  The three dashboards (\<^verbatim>\<open>streamlit_app.py\<close>, \<^verbatim>\<open>streamlit_app_2.py\<close>,
  \<^verbatim>\<open>streamlit_app_3.py\<close>) share one literal \<^verbatim>\<open>category_map\<close>: a dictionary from a
  category name to the list of item names filed under it. A Python dictionary literal keeps
  its insertion order, so the literal is an association list here.
\<close>

definition category_map :: "(string \<times> string list) list" where
  "category_map =
   [(''Bio-Fertilizers'',
      [''peek sanjivani - consortia'', ''bio surakshak - tryka (trichoderma)'',
       ''peek sanjivani - p (psb)'', ''sanjivani kit (5 ltrs)'', ''peek sanjivani - k (kmb)'',
       ''peek sanjivani - p (azotobacter)'', ''bio surakshak - ryzia (metarhizium)'',
       ''bio surakshak - rekha (psudomonas)'', ''peek sanjivani - n (azotobacter)'',
       ''sanjivani granules'', ''rhizo-vishwa (200 gm)'']),
    (''Micronutrients'',
      [''nutrisac kit - (50 kg)'', ''nutrisac kit - (25 kg)'', ''nutrisac kit - (10 kg)'',
       ''dimond kit 50kg'', ''micromax kit (50 kg)'', ''ferrous sulphate (feso4) - 20 kg'',
       ''nutrisac mg -20kg'', ''nutrisac fe - 10 kg'', ''nutrisac mg - 10 kg'',
       ''nutrisac fe  - 20 kg'', ''jackpot kit'', ''orient kit - (50 kg)'',
       ''magnesium sulphate (mgso4) - 20 kg'', ''orient kit - (53 kg)'', ''diamond kit 50kg'',
       ''ferrous sulphate - feso4 (20 kg bag)'']),
    (''Chelated Micronutrients'',
      [''iron man - eddha ferrous (500 gm)'', ''micro man - fe (500 gm)'',
       ''micro man - fe (250 gm)'', ''micro man - zn (250 gm)'', ''micro man - zn (500 gm)'',
       ''micro man - pro (1 ltr)'', ''micro man - pro (500 ml)'', ''micro man pro (250 ml)'',
       ''iron man - eddha ferrous (1 kg)'']),
    (''Bio-Stimulants'',
      [''titanic kit - (25 kg)'', ''jeeto - 95 (100 ml)'', ''jeeto - 95 (200 ml)'',
       ''flora - 95 (100 ml)'', ''flora - 95 (200 ml)'', ''mantra humic acid (500 gm)'',
       ''mantra humic acid (250 gm)'', ''mantra humic acid (1 kg)'', ''jeeto - 95 (400 ml)'',
       ''pickup - 99 (100 ml)'', ''pickup - 99 (200 ml)'', ''pickup - 99 (400 ml)'',
       ''micro man plus (250 gm)'', ''micro man plus (500 gm)'', ''flora - 95 (400 ml)'',
       ''boomer - 90 (100 ml)'', ''boomer - 90 (200 ml)'', ''boomer - 90 (400 ml)'',
       ''bingo 100 ml'', ''bingo 200 ml'', ''bingo 400 ml'', ''rainbow 200'', ''rainbow 400'',
       ''rainbow 100ml'', ''mantra humic acid (100 gm)'', ''zumbaa'', ''turma max'', ''simba'',
       ''captain (100 ml)'', ''ferrari (200 ml)'', ''ferrari (400 ml)'', ''bio stimulant - f'',
       ''bio stimulant - j'', ''ozone power (10 kg bucket)'', ''fountain 1 liter'',
       ''fountain 500 ml'']),
    (''Other Bulk Orders'',
      [''biomass briquette'', ''nandi choona'', ''calcimag''])]"

text \<open>
  \<^verbatim>\<open>item_to_category = {item: cat for cat, items in category_map.items() for item in items}\<close>

  The comprehension visits the categories in insertion order and the items of each list in
  list order; every visit stores \<open>item \<mapsto> cat\<close>, so a later visit of the same item
  overwrites an earlier one.
\<close>

definition comprehension_pairs :: "(string \<times> string list) list \<Rightarrow> (string \<times> string) list" where
  "comprehension_pairs cm = concat (map (\<lambda>(cat, items). map (\<lambda>item. (item, cat)) items) cm)"

definition dict_of :: "('k \<times> 'v) list \<Rightarrow> ('k \<rightharpoonup> 'v)" where
  "dict_of kvs = fold (\<lambda>(k, v) m. m(k \<mapsto> v)) kvs Map.empty"

definition item_to_category :: "string \<rightharpoonup> string" where
  "item_to_category = dict_of (comprehension_pairs category_map)"

text \<open>
  \<^verbatim>\<open>df["Category"] = df["Item Name"].map(item_to_category).fillna("Uncategorized")\<close>

  \<^verbatim>\<open>Series.map\<close> with a dictionary yields a missing value for a key that is not in the
  dictionary, and \<^verbatim>\<open>fillna\<close> replaces it.
\<close>

definition classify :: "string \<Rightarrow> string" where
  "classify name = (case item_to_category name of None \<Rightarrow> ''Uncategorized'' | Some cat \<Rightarrow> cat)"

section \<open>Customer tiers\<close>

text \<open>
  \<^verbatim>\<open>
  def classify_customer(amount):
      if amount > 10_00_000:   return "Gold"
      elif amount > 5_00_000:  return "Silver"
      elif amount > 1_00_000:  return "Bronze"
      else:                    return "Copper"
  \<close>
  Amounts are modelled as exact real numbers.
\<close>

definition classify_customer :: "real \<Rightarrow> string" where
  "classify_customer amount =
     (if amount > 1000000 then ''Gold''
      else if amount > 500000 then ''Silver''
      else if amount > 100000 then ''Bronze''
      else ''Copper'')"

section \<open>The transaction table\<close>

text \<open>
  One line of \<^verbatim>\<open>Delivery_Challan (4).csv\<close> as \<^verbatim>\<open>pd.read_csv\<close> hands it over: the
  challan date is still text, names are not yet normalised. An empty date cell is the
  empty string. A name cell that \<^verbatim>\<open>read_csv\<close> finds empty is a missing value
  (\<^verbatim>\<open>NaN\<close>), which is \<open>None\<close> here; it is not the same as a name made of blanks, which is
  text and is stripped to the empty string. The two numeric cells hold numbers.
\<close>

record raw_row =
  raw_challan_number :: string
  raw_challan_date :: string
  raw_customer_name :: "string option"
  raw_item_name :: "string option"
  raw_quantity :: real
  raw_item_total :: real

text \<open>A calendar date is (year, month, day); the missing date \<^verbatim>\<open>NaT\<close> is \<open>None\<close>.\<close>

type_synonym date = "nat \<times> nat \<times> nat"

text \<open>
  One row of the data frame \<^verbatim>\<open>df\<close> after preprocessing. A missing customer or item
  name stays missing through \<^verbatim>\<open>str.strip()\<close> and \<^verbatim>\<open>str.lower()\<close>. The column
  \<open>customer_type\<close> exists in \<^verbatim>\<open>streamlit_app_3.py\<close> only, where a left merge fills it;
  it is \<open>None\<close> where the column is absent or the merge found no partner. \<open>month\<close> is
  \<open>None\<close> for a missing value.
\<close>

record row =
  challan_number :: string
  challan_date :: "date option"
  customer_name :: "string option"
  item_name :: "string option"
  quantity_ordered :: real
  item_total :: real
  category :: string
  month :: "string option"
  customer_type :: "string option"

datatype error = DateParseError string

subsection \<open>String helpers\<close>

text \<open>\<^verbatim>\<open>str.lower()\<close> and \<^verbatim>\<open>str.strip()\<close>, on ASCII text.\<close>

definition lower_char :: "char \<Rightarrow> char" where
  "lower_char c =
     (case map_of (zip ''ABCDEFGHIJKLMNOPQRSTUVWXYZ'' ''abcdefghijklmnopqrstuvwxyz'') c of
        None \<Rightarrow> c | Some l \<Rightarrow> l)"

definition str_lower :: "string \<Rightarrow> string" where
  "str_lower s = map lower_char s"

definition is_space :: "char \<Rightarrow> bool" where
  "is_space c = (c \<in> set [CHR '' '', CHR 0x09, CHR 0x0A, CHR 0x0B, CHR 0x0C, CHR 0x0D])"

definition str_strip :: "string \<Rightarrow> string" where
  "str_strip s = rev (dropWhile is_space (rev (dropWhile is_space s)))"

text \<open>
  \<^verbatim>\<open>Series.str.contains(pat)\<close> searches each string for the regular expression
  \<open>pat\<close>. A pattern in which none of the special characters of Python's \<^verbatim>\<open>re\<close> module
  occurs stands for itself, so the search is for \<open>pat\<close> as a substring; the empty pattern
  is found in every string. \<open>str_contains\<close> is this substring search, and \<open>plain_pattern\<close>
  says that a pattern is of this kind. What the search does with a pattern that has
  special characters (which may also fail to compile, and then raises) is not modelled;
  the statements below that depend on the outcome of a search are made for plain patterns.
\<close>

fun starts_with :: "string \<Rightarrow> string \<Rightarrow> bool" where
  "starts_with s [] = True"
| "starts_with [] (p # ps) = False"
| "starts_with (c # cs) (p # ps) = (c = p \<and> starts_with cs ps)"

fun str_contains :: "string \<Rightarrow> string \<Rightarrow> bool" where
  "str_contains [] pat = starts_with [] pat"
| "str_contains (c # cs) pat = (starts_with (c # cs) pat \<or> str_contains cs pat)"

definition re_special :: "char list" where
  "re_special = [CHR ''.'', CHR ''^'', CHR ''$'', CHR ''*'', CHR ''+'', CHR ''?'', CHR ''{'',
                 CHR ''}'', CHR ''['', CHR '']'', CHR 0x5C, CHR ''|'', CHR ''('', CHR '')'']"

definition plain_pattern :: "string \<Rightarrow> bool" where
  "plain_pattern pat = list_all (\<lambda>c. c \<notin> set re_special) pat"

subsection \<open>Dates and month labels\<close>

definition digit_char :: "nat \<Rightarrow> char" where
  "digit_char n = ''0123456789'' ! (n mod 10)"

definition digits2 :: "nat \<Rightarrow> string" where
  "digits2 n = [digit_char (n div 10), digit_char n]"

definition digits4 :: "nat \<Rightarrow> string" where
  "digits4 n = [digit_char (n div 1000), digit_char (n div 100), digit_char (n div 10), digit_char n]"

definition month_names :: "string list" where
  "month_names = [''Jan'', ''Feb'', ''Mar'', ''Apr'', ''May'', ''Jun'',
                  ''Jul'', ''Aug'', ''Sep'', ''Oct'', ''Nov'', ''Dec'']"

text \<open>\<^verbatim>\<open>dt.to_period('M').astype(str)\<close>: \<^verbatim>\<open>2024-01\<close>; the missing date prints as \<^verbatim>\<open>NaT\<close>.\<close>

definition period_str :: "date option \<Rightarrow> string" where
  "period_str d = (case d of None \<Rightarrow> ''NaT'' | Some (y, m, _) \<Rightarrow> digits4 y @ ''-'' @ digits2 m)"

text \<open>\<^verbatim>\<open>dt.strftime("%b %y")\<close>: \<^verbatim>\<open>Jan 24\<close>; the missing date gives a missing label.\<close>

definition strftime_b_y :: "date option \<Rightarrow> string option" where
  "strftime_b_y d =
     (case d of None \<Rightarrow> None
      | Some (y, m, _) \<Rightarrow> Some (month_names ! ((m - 1) mod 12) @ '' '' @ digits2 (y mod 100)))"

text \<open>
  \<^verbatim>\<open>pd.to_datetime(label, format="%b %y")\<close>: the label read back as (year, month). A
  two-digit year up to 68 is in the 2000s, from 69 on in the 1900s.
\<close>

definition digit_val :: "char \<Rightarrow> nat option" where
  "digit_val c = map_of (zip ''0123456789'' [0, 1, 2, 3, 4, 5, 6, 7, 8, 9]) c"

definition month_index :: "string \<Rightarrow> nat option" where
  "month_index s = map_of (zip month_names [1, 2, 3, 4, 5, 6, 7, 8, 9, 10, 11, 12]) s"

definition parse_b_y :: "string \<Rightarrow> (nat \<times> nat) option" where
  "parse_b_y s =
     (case s of
        [a, b, c, sp, d1, d2] \<Rightarrow>
          (case (month_index [a, b, c], digit_val d1, digit_val d2) of
             (Some m, Some t, Some u) \<Rightarrow>
               if sp = CHR '' '' then
                 (let yy = 10 * t + u in Some (if yy \<le> 68 then 2000 + yy else 1900 + yy, m))
               else None
           | _ \<Rightarrow> None)
      | _ \<Rightarrow> None)"

subsection \<open>Grouping\<close>

text \<open>
  \<^verbatim>\<open>df.groupby(key)\<close> has one group per distinct key, in ascending key order
  (\<^verbatim>\<open>sort=True\<close> is the default). A row whose key is missing belongs to no group
  (\<^verbatim>\<open>dropna=True\<close> is the default); with several key columns, a row is left out as soon
  as one of them is missing. The key of a row is therefore optional. \<^verbatim>\<open>.sum()\<close> adds a
  column up within each group.
\<close>

definition groupby_keys :: "('r \<Rightarrow> 'k::linorder option) \<Rightarrow> 'r list \<Rightarrow> 'k list" where
  "groupby_keys key rows = sort (remdups (List.map_filter key rows))"

definition group_sum :: "('r \<Rightarrow> 'k option) \<Rightarrow> ('r \<Rightarrow> real) \<Rightarrow> 'r list \<Rightarrow> 'k \<Rightarrow> real" where
  "group_sum key f rows k = sum_list (map f (filter (\<lambda>r. key r = Some k) rows))"

text \<open>\<^verbatim>\<open>pd.Series.nunique\<close> within a group.\<close>

definition group_nunique :: "('r \<Rightarrow> 'k option) \<Rightarrow> ('r \<Rightarrow> 'v) \<Rightarrow> 'r list \<Rightarrow> 'k \<Rightarrow> nat" where
  "group_nunique key f rows k = length (remdups (map f (filter (\<lambda>r. key r = Some k) rows)))"

text \<open>
  Sums are sums of real numbers. pandas adds 64-bit floating-point numbers, and rounds
  after each addition, so that the order of the additions can change the last digits of a
  sum. No rounding happens when the numbers added are whole numbers whose absolute values
  add up to less than \<^verbatim>\<open>2**53\<close>: then every intermediate sum is a whole number below
  \<^verbatim>\<open>2**53\<close> in absolute value, which a 64-bit float holds exactly, and the sums of the code
  are the sums of the model. Statements that compare sums taken in different orders are
  made for such columns.
\<close>

definition whole_numbers :: "real list \<Rightarrow> bool" where
  "whole_numbers xs = (list_all (\<lambda>x. x \<in> \<int>) xs \<and> sum_list (map abs xs) < 2 ^ 53)"

section \<open>Loading and preprocessing\<close>

text \<open>
  \<^verbatim>\<open>pd.to_datetime\<close> reads a date out of text. The reader itself belongs to pandas; it
  is the parameter \<open>parse\<close>, which returns \<open>None\<close> on text it cannot read. An empty
  cell becomes \<^verbatim>\<open>NaT\<close> in either mode. By default (\<^verbatim>\<open>errors='raise'\<close>) unreadable text
  raises; with \<^verbatim>\<open>errors='coerce'\<close> it becomes \<^verbatim>\<open>NaT\<close>.
\<close>

definition to_datetime_raise :: "(string \<Rightarrow> date option) \<Rightarrow> string \<Rightarrow> error + date option" where
  "to_datetime_raise parse s =
     (if s = [] then Inr None
      else case parse s of None \<Rightarrow> Inl (DateParseError s) | Some d \<Rightarrow> Inr (Some d))"

definition to_datetime_coerce :: "(string \<Rightarrow> date option) \<Rightarrow> string \<Rightarrow> date option" where
  "to_datetime_coerce parse s = (if s = [] then None else parse s)"

text \<open>
  \<^verbatim>\<open>df["Category"] = df["Item Name"].map(item_to_category).fillna("Uncategorized")\<close> on the
  column: a missing item name is mapped to a missing value, which \<^verbatim>\<open>fillna\<close> replaces
  like that of a name that is not in the dictionary.
\<close>

definition category_of :: "string option \<Rightarrow> string" where
  "category_of name = (case name of None \<Rightarrow> ''Uncategorized'' | Some n \<Rightarrow> classify n)"

text \<open>
  \<^verbatim>\<open>streamlit_app.py\<close>, lines 7 to 56:
  \<^verbatim>\<open>
  df['Challan Date'] = pd.to_datetime(df['Challan Date'])
  df['Month'] = df['Challan Date'].dt.to_period('M').astype(str)
  df['Item Name'] = df['Item Name'].str.lower()
  df['Customer Name'] = df['Customer Name'].str.strip()
  df["Category"] = df["Item Name"].map(item_to_category).fillna("Uncategorized")
  \<close>
\<close>

definition make_row_app :: "raw_row \<Rightarrow> date option \<Rightarrow> row" where
  "make_row_app r d =
     \<lparr>challan_number = raw_challan_number r, challan_date = d,
      customer_name = map_option str_strip (raw_customer_name r),
      item_name = map_option str_lower (raw_item_name r),
      quantity_ordered = raw_quantity r, item_total = raw_item_total r,
      category = category_of (map_option str_lower (raw_item_name r)),
      month = Some (period_str d), customer_type = None\<rparr>"

fun load_app :: "(string \<Rightarrow> date option) \<Rightarrow> raw_row list \<Rightarrow> error + row list" where
  "load_app parse [] = Inr []"
| "load_app parse (r # rs) =
     (case to_datetime_raise parse (raw_challan_date r) of
        Inl e \<Rightarrow> Inl e
      | Inr d \<Rightarrow> (case load_app parse rs of
                   Inl e \<Rightarrow> Inl e
                 | Inr rows \<Rightarrow> Inr (make_row_app r d # rows)))"

text \<open>
  \<^verbatim>\<open>streamlit_app_2.py\<close>, lines 5 to 51: no date handling at all; names are normalised
  and the category is attached.
\<close>

definition load_app_2 :: "raw_row list \<Rightarrow> row list" where
  "load_app_2 raws =
     map (\<lambda>r. \<lparr>challan_number = raw_challan_number r, challan_date = None,
               customer_name = map_option str_strip (raw_customer_name r),
               item_name = map_option str_lower (raw_item_name r),
               quantity_ordered = raw_quantity r, item_total = raw_item_total r,
               category = category_of (map_option str_lower (raw_item_name r)),
               month = None, customer_type = None\<rparr>) raws"

text \<open>
  \<^verbatim>\<open>streamlit_app_3.py\<close>, lines 6 to 69:
  \<^verbatim>\<open>
  df['Challan Date'] = pd.to_datetime(df['Challan Date'], errors='coerce')
  df["Product Category"] = df["Item Name"].map(item_to_category).fillna("Uncategorized")
  customer_summary = df.groupby("Customer Name")["Item Total"].sum().reset_index()
  customer_summary["Customer Type"] = customer_summary["Item Total"].apply(classify_customer)
  df = df.merge(customer_summary[["Customer Name", "Customer Type"]], on="Customer Name", how="left")
  df["Month"] = df["Challan Date"].dt.strftime("%b %y")
  \<close>
  \<^verbatim>\<open>customer_summary\<close> has one row per customer name and none for the missing name, so
  in the left merge a row of \<^verbatim>\<open>df\<close> without customer name finds no partner and its
  \<^verbatim>\<open>Customer Type\<close> is missing.
\<close>

definition base_rows_3 :: "(string \<Rightarrow> date option) \<Rightarrow> raw_row list \<Rightarrow> row list" where
  "base_rows_3 parse raws =
     map (\<lambda>r. \<lparr>challan_number = raw_challan_number r,
               challan_date = to_datetime_coerce parse (raw_challan_date r),
               customer_name = map_option str_strip (raw_customer_name r),
               item_name = map_option str_lower (raw_item_name r),
               quantity_ordered = raw_quantity r, item_total = raw_item_total r,
               category = category_of (map_option str_lower (raw_item_name r)),
               month = None, customer_type = None\<rparr>) raws"

definition customer_summary :: "row list \<Rightarrow> (string \<times> real) list" where
  "customer_summary df =
     map (\<lambda>c. (c, group_sum customer_name item_total df c)) (groupby_keys customer_name df)"

definition customer_types :: "row list \<Rightarrow> (string \<times> string) list" where
  "customer_types df = map (\<lambda>(c, total). (c, classify_customer total)) (customer_summary df)"

definition merge_customer_type :: "row list \<Rightarrow> row list" where
  "merge_customer_type df =
     map (\<lambda>r. r\<lparr>customer_type :=
                  (case customer_name r of None \<Rightarrow> None
                   | Some c \<Rightarrow> map_of (customer_types df) c)\<rparr>) df"

definition load_app_3 :: "(string \<Rightarrow> date option) \<Rightarrow> raw_row list \<Rightarrow> row list" where
  "load_app_3 parse raws =
     map (\<lambda>r. r\<lparr>month := strftime_b_y (challan_date r)\<rparr>)
       (merge_customer_type (base_rows_3 parse raws))"

section \<open>The dealer dashboard (\<^verbatim>\<open>streamlit_app.py\<close>)\<close>

text \<open>
  \<^verbatim>\<open>
  dealer_stats = df.groupby("Customer Name").agg({
      "Item Total": "sum",
      "Delivery Challan Number": pd.Series.nunique
  }).rename(columns={...}).reset_index()
  dealer_stats = dealer_stats.sort_values(by="Total Sales", ascending=False).reset_index(drop=True)
  \<close>
  The rows without customer name are in no group, so they are in no dealer's total.
\<close>

record dealer =
  dealer_name :: string
  total_sales :: real
  total_orders :: nat

definition dealer_groups :: "row list \<Rightarrow> dealer list" where
  "dealer_groups df =
     map (\<lambda>c. \<lparr>dealer_name = c,
               total_sales = group_sum customer_name item_total df c,
               total_orders = group_nunique customer_name challan_number df c\<rparr>)
       (groupby_keys customer_name df)"

text \<open>
  \<^verbatim>\<open>sort_values\<close> is called without \<^verbatim>\<open>kind\<close>, so it sorts with the default
  \<^verbatim>\<open>'quicksort'\<close>, which pandas documents as not stable: the result is some
  rearrangement of the rows in descending order of the key, and nothing fixes the order of
  rows with equal keys. The call is therefore a relation between the frame and its
  possible results rather than a function.
\<close>

definition sort_values_desc :: "('r \<Rightarrow> real) \<Rightarrow> 'r list \<Rightarrow> 'r list \<Rightarrow> bool" where
  "sort_values_desc key xs ys = (mset ys = mset xs \<and> sorted_wrt (\<lambda>a b. key a \<ge> key b) ys)"

definition dealer_stats :: "row list \<Rightarrow> dealer list \<Rightarrow> bool" where
  "dealer_stats df ys = sort_values_desc total_sales (dealer_groups df) ys"

text \<open>
  What the specification asks of the order: descending totals, and of two dealers with
  equal totals the one with the smaller name first.
\<close>

definition tie_break_by_name :: "dealer list \<Rightarrow> bool" where
  "tie_break_by_name ys =
     sorted_wrt (\<lambda>a b. total_sales a > total_sales b
                     \<or> (total_sales a = total_sales b \<and> dealer_name a \<le> dealer_name b)) ys"

text \<open>
  \<^verbatim>\<open>
  search = st.text_input("Search Dealer by Name").strip().lower()
  filtered_dealers = dealer_stats[dealer_stats["Customer Name"].str.lower().str.contains(search)]
  \<close>
  Every row of \<^verbatim>\<open>dealer_stats\<close> has a name, the key of its group.
\<close>

definition search_of_input :: "string \<Rightarrow> string" where
  "search_of_input text = str_lower (str_strip text)"

definition filtered_dealers :: "string \<Rightarrow> dealer list \<Rightarrow> dealer list" where
  "filtered_dealers text ds =
     filter (\<lambda>d. str_contains (str_lower (dealer_name d)) (search_of_input text)) ds"

text \<open>
  Floating-point division in pandas does not raise on a zero divisor: \<open>0 / 0\<close> is
  not-a-number and \<open>x / 0\<close> is an infinity. The exceptional values are kept apart from
  the finite ones, which are exact reals; they pass unchanged through the multiplication
  by 100 and through \<^verbatim>\<open>round\<close>.
\<close>

datatype fval = Fin real | NaN | PosInf | NegInf

definition pd_div :: "real \<Rightarrow> real \<Rightarrow> fval" where
  "pd_div x y =
     (if y = 0 then (if x = 0 then NaN else if x > 0 then PosInf else NegInf)
      else Fin (x / y))"

definition pd_times :: "fval \<Rightarrow> real \<Rightarrow> fval" where
  "pd_times v k = (case v of Fin x \<Rightarrow> Fin (x * k) | NaN \<Rightarrow> NaN
                   | PosInf \<Rightarrow> (if k > 0 then PosInf else if k < 0 then NegInf else NaN)
                   | NegInf \<Rightarrow> (if k > 0 then NegInf else if k < 0 then PosInf else NaN))"

text \<open>\<^verbatim>\<open>round(1)\<close>: to one decimal place, a tie going to the even neighbour.\<close>

definition rint :: "real \<Rightarrow> int" where
  "rint x = (let f = \<lfloor>x\<rfloor>; d = x - of_int f in
             if d < 1 / 2 then f else if d > 1 / 2 then f + 1
             else if even f then f else f + 1)"

definition pd_round1 :: "fval \<Rightarrow> fval" where
  "pd_round1 v = (case v of Fin x \<Rightarrow> Fin (of_int (rint (x * 10)) / 10) | e \<Rightarrow> e)"

text \<open>
  \<^verbatim>\<open>
  customer_data = df[df["Customer Name"] == customer]
  category_share = customer_data.groupby("Category")["Item Total"].sum().reset_index()
  category_share["%"] = (category_share["Item Total"]
                         / category_share["Item Total"].sum() * 100).round(1)
  \<close>
  The category column has no missing value.
\<close>

definition customer_data :: "row list \<Rightarrow> string \<Rightarrow> row list" where
  "customer_data df customer = filter (\<lambda>r. customer_name r = Some customer) df"

definition category_share :: "row list \<Rightarrow> (string \<times> real) list" where
  "category_share data =
     map (\<lambda>cat. (cat, group_sum (\<lambda>r. Some (category r)) item_total data cat))
       (groupby_keys (\<lambda>r. Some (category r)) data)"

definition category_share_pct :: "row list \<Rightarrow> (string \<times> real \<times> fval) list" where
  "category_share_pct data =
     (let share = category_share data; total = sum_list (map snd share)
      in map (\<lambda>(cat, amt). (cat, amt, pd_round1 (pd_times (pd_div amt total) 100))) share)"

text \<open>
  \<^verbatim>\<open>monthly_totals = customer_data.groupby("Month")["Item Total"].sum().reset_index()\<close>
\<close>

definition monthly_totals :: "row list \<Rightarrow> (string \<times> real) list" where
  "monthly_totals data =
     map (\<lambda>m. (m, group_sum month item_total data m)) (groupby_keys month data)"

section \<open>The dealer summary table (\<^verbatim>\<open>streamlit_app_2.py\<close>)\<close>

text \<open>
  \<^verbatim>\<open>
  summary = df.groupby("Customer Name").agg({
      "Delivery Challan Number": pd.Series.nunique, "Item Total": "sum"}).rename(...)
  ...
  summary["Customer Type"] = summary["Total Order Amount"].apply(classify_customer)
  \<close>
  As in the dealer dashboard, the rows without customer name are in no group.
\<close>

record summary_row =
  summary_customer :: string
  summary_orders :: nat
  summary_amount :: real
  summary_type :: string

definition summary :: "row list \<Rightarrow> summary_row list" where
  "summary df =
     map (\<lambda>c. \<lparr>summary_customer = c,
               summary_orders = group_nunique customer_name challan_number df c,
               summary_amount = group_sum customer_name item_total df c,
               summary_type = classify_customer (group_sum customer_name item_total df c)\<rparr>)
       (groupby_keys customer_name df)"

text \<open>
  The amount and percentage behind each per-category cell:
  \<^verbatim>\<open>
  amt = df[df["Category"] == cat].groupby("Customer Name")["Item Total"].sum()
  amt_full = summary.index.map(amt).fillna(0)
  total_amt = summary["Total Order Amount"].replace(0, 1)
  pct_full = amt_full / total_amt * 100
  \<close>
\<close>

definition amt_full :: "row list \<Rightarrow> string \<Rightarrow> string \<Rightarrow> real" where
  "amt_full df cat c = group_sum customer_name item_total (filter (\<lambda>r. category r = cat) df) c"

definition pct_full :: "row list \<Rightarrow> string \<Rightarrow> string \<Rightarrow> real" where
  "pct_full df cat c =
     (let total = group_sum customer_name item_total df c;
          total_amt = (if total = 0 then 1 else total)
      in amt_full df cat c / total_amt * 100)"

text \<open>
  \<^verbatim>\<open>
  filtered = summary.copy()
  if selected_type != "All":     filtered = filtered[filtered["Customer Type"] == selected_type]
  if selected_customer != "All": filtered = filtered[filtered["Customer Name"] == selected_customer]
  \<close>
\<close>

definition filtered_summary :: "string \<Rightarrow> string \<Rightarrow> summary_row list \<Rightarrow> summary_row list" where
  "filtered_summary selected_type selected_customer rows =
     (let f1 = (if selected_type \<noteq> ''All''
                then filter (\<lambda>r. summary_type r = selected_type) rows else rows)
      in if selected_customer \<noteq> ''All''
         then filter (\<lambda>r. summary_customer r = selected_customer) f1 else f1)"

section \<open>The product quantity timeline (\<^verbatim>\<open>streamlit_app_3.py\<close>)\<close>

text \<open>
  \<^verbatim>\<open>
  filtered_df = df.copy()
  if selected_product_type != "All":
      filtered_df = filtered_df[filtered_df["Product Category"] == selected_product_type]
  if selected_customer_type != "All":
      filtered_df = filtered_df[filtered_df["Customer Type"] == selected_customer_type]
  if search_term:
      filtered_df = filtered_df[filtered_df["Item Name"].str.contains(search_term, case=False, na=False)]
  \<close>
  \<^verbatim>\<open>case=False\<close> compares without regard to case, and \<^verbatim>\<open>na=False\<close> makes the search
  fail on a missing item name.
\<close>

definition item_contains :: "string \<Rightarrow> row \<Rightarrow> bool" where
  "item_contains search_term r =
     (case item_name r of None \<Rightarrow> False
      | Some i \<Rightarrow> str_contains (str_lower i) (str_lower search_term))"

definition apply_filters :: "string \<Rightarrow> string \<Rightarrow> string \<Rightarrow> row list \<Rightarrow> row list" where
  "apply_filters selected_product_type selected_customer_type search_term df =
     (let f1 = (if selected_product_type \<noteq> ''All''
                then filter (\<lambda>r. category r = selected_product_type) df else df);
          f2 = (if selected_customer_type \<noteq> ''All''
                then filter (\<lambda>r. customer_type r = Some selected_customer_type) f1 else f1)
      in if search_term \<noteq> [] then filter (item_contains search_term) f2 else f2)"

definition filtered_df :: "string \<Rightarrow> string \<Rightarrow> string \<Rightarrow> row list \<Rightarrow> row list" where
  "filtered_df selected_product_type selected_customer_type text df =
     apply_filters selected_product_type selected_customer_type (search_of_input text) df"

text \<open>
  \<^verbatim>\<open>
  pivot_qty = filtered_df.groupby(["Product Category", "Item Name", "Month"])
                         ["QuantityOrdered"].sum().unstack(fill_value=0)
  pivot_qty["Total Qty"] = pivot_qty.sum(axis=1)
  \<close>
  The groups are keyed by category, item name and month; a row whose item name or month
  is missing belongs to no group (the category is never missing). \<^verbatim>\<open>unstack\<close> turns the
  innermost key, the month, into columns: the row index is the distinct (category, item)
  pairs of the group keys in ascending order, the columns are the distinct months of the
  group keys in ascending order of the labels, and a cell without a group is 0.
\<close>

definition pivot_key :: "row \<Rightarrow> ((string \<times> string) \<times> string) option" where
  "pivot_key r =
     (case (item_name r, month r) of
        (Some i, Some m) \<Rightarrow> Some ((category r, i), m)
      | _ \<Rightarrow> None)"

definition pivot_index :: "row list \<Rightarrow> (string \<times> string) list" where
  "pivot_index fd = remdups (map fst (groupby_keys pivot_key fd))"

definition pivot_columns :: "row list \<Rightarrow> string list" where
  "pivot_columns fd = sort (remdups (map snd (groupby_keys pivot_key fd)))"

definition pivot_cell :: "row list \<Rightarrow> string \<times> string \<Rightarrow> string \<Rightarrow> real" where
  "pivot_cell fd k m = group_sum pivot_key quantity_ordered fd (k, m)"

definition pivot_qty :: "row list \<Rightarrow> ((string \<times> string) \<times> real list) list" where
  "pivot_qty fd = map (\<lambda>k. (k, map (pivot_cell fd k) (pivot_columns fd))) (pivot_index fd)"

definition cell_sum :: "('k \<times> real list) list \<Rightarrow> real" where
  "cell_sum p = sum_list (map (\<lambda>(k, cells). sum_list cells) p)"

text \<open>
  \<^verbatim>\<open>
  heatmap_data = df.copy()
  heatmap_data = heatmap_data[heatmap_data["Product Category"] != "Other Bulk Orders"]
  # Apply filters again  (the three filters of filtered_df)
  \<close>
\<close>

definition heatmap_data :: "string \<Rightarrow> string \<Rightarrow> string \<Rightarrow> row list \<Rightarrow> row list" where
  "heatmap_data selected_product_type selected_customer_type text df =
     apply_filters selected_product_type selected_customer_type (search_of_input text)
       (filter (\<lambda>r. category r \<noteq> ''Other Bulk Orders'') df)"

text \<open>
  Before the heat maps are drawn, two columns of \<^verbatim>\<open>heatmap_data\<close> are rewritten: the
  month label is computed from the date once more, and a missing item name becomes the
  name \<^verbatim>\<open>Unknown Item\<close>.
  \<^verbatim>\<open>
  heatmap_data["Month"] = pd.to_datetime(heatmap_data["Challan Date"]).dt.strftime("%b %y")
  heatmap_data["Item Name"] = heatmap_data["Item Name"].fillna("Unknown Item")
  \<close>
\<close>

definition heatmap_prepare :: "row list \<Rightarrow> row list" where
  "heatmap_prepare hdata =
     map (\<lambda>r. r\<lparr>month := strftime_b_y (challan_date r),
                item_name := Some (case item_name r of None \<Rightarrow> ''Unknown Item'' | Some i \<Rightarrow> i)\<rparr>)
       hdata"

text \<open>
  \<^verbatim>\<open>
  for customer_type in ["Gold", "Silver", "Bronze", "Copper"]:
      sub_df = heatmap_data[heatmap_data["Customer Type"] == customer_type]
      if sub_df.empty: continue
      pivot = sub_df.pivot_table(index="Item Name", columns="Month",
                                 values="QuantityOrdered", aggfunc="sum", fill_value=0)
      pivot = pivot.loc[pivot.sum(axis=1) > 0]
      pivot = pivot[pd.to_datetime(pivot.columns, format="%b %y").sort_values().strftime("%b %y")]
  \<close>
  \<^verbatim>\<open>pivot_table\<close> groups by item name and month, and a row whose month is missing is in
  no group. The columns are put in the order of the dates their labels stand for. A row
  whose customer type is missing is in the \<^verbatim>\<open>sub_df\<close> of no tier.
\<close>

definition heatmap_key :: "row \<Rightarrow> (string \<times> string) option" where
  "heatmap_key r =
     (case (item_name r, month r) of
        (Some i, Some m) \<Rightarrow> Some (i, m)
      | _ \<Rightarrow> None)"

definition month_key :: "string \<Rightarrow> nat \<times> nat" where
  "month_key label = (case parse_b_y label of None \<Rightarrow> (0, 0) | Some ym \<Rightarrow> ym)"

definition heatmap_columns :: "row list \<Rightarrow> string list" where
  "heatmap_columns sub_df =
     sort_key month_key (sort (remdups (map snd (groupby_keys heatmap_key sub_df))))"

definition heatmap_cell :: "row list \<Rightarrow> string \<Rightarrow> string \<Rightarrow> real" where
  "heatmap_cell sub_df i m = group_sum heatmap_key quantity_ordered sub_df (i, m)"

definition heatmap_pivot :: "row list \<Rightarrow> (string \<times> real list) list" where
  "heatmap_pivot sub_df =
     filter (\<lambda>(i, cells). sum_list cells > 0)
       (map (\<lambda>i. (i, map (heatmap_cell sub_df i) (heatmap_columns sub_df)))
          (remdups (map fst (groupby_keys heatmap_key sub_df))))"

definition heatmap_tiers :: "string list" where
  "heatmap_tiers = [''Gold'', ''Silver'', ''Bronze'', ''Copper'']"

definition heatmaps :: "row list \<Rightarrow> (string \<times> (string \<times> real list) list) list" where
  "heatmaps hdata =
     List.map_filter
       (\<lambda>t. let sub_df = filter (\<lambda>r. customer_type r = Some t) (heatmap_prepare hdata)
            in if sub_df = [] then None else Some (t, heatmap_pivot sub_df))
       heatmap_tiers"

text \<open>The sum of all cells of all heat maps.\<close>

definition heatmaps_cell_sum :: "(string \<times> (string \<times> real list) list) list \<Rightarrow> real" where
  "heatmaps_cell_sum hs = sum_list (map (\<lambda>(t, p). cell_sum p) hs)"

section \<open>Example data\<close>

text \<open>
  A reader for dates written \<^verbatim>\<open>YYYY-MM-DD\<close>, standing in for the pandas reader on the
  examples below: it reads the ISO dates and rejects text without digits, as pandas does.
\<close>

definition parse_iso :: "string \<Rightarrow> date option" where
  "parse_iso s =
     (case map digit_val s of
        [Some y1, Some y2, Some y3, Some y4, None, Some m1, Some m2, None, Some d1, Some d2] \<Rightarrow>
          (let y = 1000 * y1 + 100 * y2 + 10 * y3 + y4; m = 10 * m1 + m2; d = 10 * d1 + d2
           in if s ! 4 = CHR ''-'' \<and> s ! 7 = CHR ''-'' \<and> 1 \<le> m \<and> m \<le> 12 \<and> 1 \<le> d \<and> d \<le> 31
              then Some (y, m, d) else None)
      | _ \<Rightarrow> None)"

text \<open>
  Dealer \<open>A\<close> buys two bio-stimulants in January and April 2024; dealer \<open>B\<close> receives
  five units of a bulk item in February at no charge.
\<close>

definition example_raws :: "raw_row list" where
  "example_raws =
     [\<lparr>raw_challan_number = ''DC-1'', raw_challan_date = ''2024-01-05'',
        raw_customer_name = Some ''A'', raw_item_name = Some ''simba'',
        raw_quantity = 2, raw_item_total = 1000\<rparr>,
      \<lparr>raw_challan_number = ''DC-2'', raw_challan_date = ''2024-04-10'',
        raw_customer_name = Some ''A'', raw_item_name = Some ''Zumbaa'',
        raw_quantity = 1, raw_item_total = 500\<rparr>,
      \<lparr>raw_challan_number = ''DC-3'', raw_challan_date = ''2024-02-01'',
        raw_customer_name = Some '' B '', raw_item_name = Some ''calcimag'',
        raw_quantity = 5, raw_item_total = 0\<rparr>]"

text \<open>The same file with one more line, whose date cell is not a date.\<close>

definition undated_raw :: raw_row where
  "undated_raw =
     \<lparr>raw_challan_number = ''DC-4'', raw_challan_date = ''not a date'',
      raw_customer_name = Some ''C'', raw_item_name = Some ''unknown product'',
      raw_quantity = 3, raw_item_total = 700\<rparr>"

text \<open>Eighteen dealers with one order of the same amount each.\<close>

definition tied_raws :: "raw_row list" where
  "tied_raws =
     map (\<lambda>n. \<lparr>raw_challan_number = ''DC-'' @ n, raw_challan_date = ''2024-01-05'',
               raw_customer_name = Some (''Dealer '' @ n), raw_item_name = Some ''simba'',
               raw_quantity = 1, raw_item_total = 100\<rparr>)
       [''01'', ''02'', ''03'', ''04'', ''05'', ''06'', ''07'', ''08'', ''09'',
        ''10'', ''11'', ''12'', ''13'', ''14'', ''15'', ''16'', ''17'', ''18'']"

definition tied_df :: "row list" where
  "tied_df = map (\<lambda>r. make_row_app r (Some (2024, 1, 5))) tied_raws"

definition tied_outcome :: "dealer list" where
  "tied_outcome =
     map (\<lambda>n. \<lparr>dealer_name = ''Dealer '' @ n, total_sales = 100, total_orders = 1\<rparr>)
       [''01'', ''02'', ''17'', ''16'', ''15'', ''14'', ''13'', ''12'', ''11'',
        ''10'', ''09'', ''08'', ''07'', ''06'', ''05'', ''04'', ''03'', ''18'']"

text \<open>A file in which a bulk item was delivered with quantity zero.\<close>

definition free_bulk_raws :: "raw_row list" where
  "free_bulk_raws =
     [\<lparr>raw_challan_number = ''DC-1'', raw_challan_date = ''2024-01-05'',
        raw_customer_name = Some ''A'', raw_item_name = Some ''simba'',
        raw_quantity = 2, raw_item_total = 1000\<rparr>,
      \<lparr>raw_challan_number = ''DC-2'', raw_challan_date = ''2024-01-20'',
        raw_customer_name = Some ''B'', raw_item_name = Some ''nandi choona'',
        raw_quantity = 0, raw_item_total = 0\<rparr>]"


text \<open>
  The example file with two more lines: an order of dealer \<open>A\<close> whose item name cell is
  empty, and an order with an item name but an empty customer name cell.
\<close>

definition gappy_raws :: "raw_row list" where
  "gappy_raws = example_raws @
     [\<lparr>raw_challan_number = ''DC-5'', raw_challan_date = ''2024-03-02'',
        raw_customer_name = Some ''A'', raw_item_name = None,
        raw_quantity = 4, raw_item_total = 400\<rparr>,
      \<lparr>raw_challan_number = ''DC-6'', raw_challan_date = ''2024-03-09'',
        raw_customer_name = None, raw_item_name = Some ''simba'',
        raw_quantity = 7, raw_item_total = 700\<rparr>]"

section \<open>Properties of the classifiers\<close>

lemma dict_of_snoc: "dict_of (kvs @ [(k, v)]) = (dict_of kvs)(k \<mapsto> v)"
  by (simp add: dict_of_def)

lemma dict_of_map_of: "dict_of kvs = map_of (rev kvs)"
proof (induction kvs rule: rev_induct)
  case Nil
  show ?case by (simp add: dict_of_def)
next
  case (snoc kv kvs)
  obtain k v where kv: "kv = (k, v)" by (cases kv)
  show ?case unfolding kv dict_of_snoc snoc.IH by simp
qed

lemma dict_of_distinct:
  assumes "distinct (map fst kvs)" and "(k, v) \<in> set kvs"
  shows "dict_of kvs k = Some v"
proof -
  have "distinct (map fst (rev kvs))" using assms(1) by (simp add: rev_map [symmetric])
  moreover have "(k, v) \<in> set (rev kvs)" using assms(2) by simp
  ultimately show ?thesis by (simp add: dict_of_map_of)
qed

lemma dict_of_absent:
  assumes "k \<notin> fst ` set kvs"
  shows "dict_of kvs k = None"
  using assms by (simp add: dict_of_map_of map_of_eq_None_iff)

lemma comprehension_pairs_mem:
  "(item, cat) \<in> set (comprehension_pairs cm) \<longleftrightarrow> (\<exists>items. (cat, items) \<in> set cm \<and> item \<in> set items)"
  by (auto simp: comprehension_pairs_def)

lemma comprehension_pairs_keys:
  "fst ` set (comprehension_pairs cm) = (\<Union>(cat, items) \<in> set cm. set items)"
  by (force simp: comprehension_pairs_def)

lemma category_map_items_distinct: "distinct (map fst (comprehension_pairs category_map))"
  unfolding comprehension_pairs_def category_map_def by simp

text \<open>
  Claim C1. For every total spend \<open>s\<close>, \<open>classify_customer s\<close> is Gold exactly when
  \<open>s > 1,000,000\<close>, Silver exactly when \<open>500,000 < s \<le> 1,000,000\<close>, Bronze exactly when
  \<open>100,000 < s \<le> 500,000\<close> and Copper exactly when \<open>s \<le> 100,000\<close>, negative amounts
  included. The function is a chain of comparisons with a final \<^verbatim>\<open>else\<close>, so it returns
  one of the four names on every real number.
\<close>

theorem classify_customer_thresholds:
  "(classify_customer s = ''Gold'') = (s > 1000000)
   \<and> (classify_customer s = ''Silver'') = (500000 < s \<and> s \<le> 1000000)
   \<and> (classify_customer s = ''Bronze'') = (100000 < s \<and> s \<le> 500000)
   \<and> (classify_customer s = ''Copper'') = (s \<le> 100000)
   \<and> classify_customer s \<in> {''Gold'', ''Silver'', ''Bronze'', ''Copper''}"
  by (simp add: classify_customer_def)

text \<open>
  Claim C2. Every item name listed in the category map is classified under the category
  whose list contains it, and every string listed nowhere is classified as
  \<open>Uncategorized\<close>. No item name of the literal occurs twice, so the overwriting of the
  comprehension never comes into play. The lookup is a total function: a missing key is
  the value \<open>Uncategorized\<close>, never an error.
\<close>

theorem classify_category_map:
  "(\<forall>(cat, items) \<in> set category_map. \<forall>item \<in> set items. classify item = cat)
   \<and> (\<forall>name. name \<notin> (\<Union>(cat, items) \<in> set category_map. set items)
         \<longrightarrow> classify name = ''Uncategorized'')"
proof (intro conjI ballI allI impI)
  fix entry
  assume e: "entry \<in> set category_map"
  obtain cat items where entry: "entry = (cat, items)" by (cases entry)
  have "classify item = cat" if i: "item \<in> set items" for item
  proof -
    have "(item, cat) \<in> set (comprehension_pairs category_map)"
      using e i entry by (auto simp: comprehension_pairs_mem)
    then have "item_to_category item = Some cat"
      unfolding item_to_category_def
      by (rule dict_of_distinct [OF category_map_items_distinct])
    then show ?thesis by (simp add: classify_def)
  qed
  then show "case entry of (cat, items) \<Rightarrow> \<forall>item \<in> set items. classify item = cat"
    by (simp add: entry)
next
  fix name
  assume "name \<notin> (\<Union>(cat, items) \<in> set category_map. set items)"
  then have "name \<notin> fst ` set (comprehension_pairs category_map)"
    unfolding comprehension_pairs_keys .
  then have "item_to_category name = None"
    unfolding item_to_category_def by (rule dict_of_absent)
  then show "classify name = ''Uncategorized''" by (simp add: classify_def)
qed

theorem classify_category_map_witness:
  "classify ''simba'' = ''Bio-Stimulants'' \<and> classify ''unknown product'' = ''Uncategorized''"
proof -
  have a: "(''Bio-Stimulants'', snd (category_map ! 3)) \<in> set category_map"
    by (simp add: category_map_def)
  have b: "''simba'' \<in> set (snd (category_map ! 3))"
    by (simp add: category_map_def)
  have c: "''unknown product'' \<notin> (\<Union>(cat, items) \<in> set category_map. set items)"
    by (simp add: category_map_def)
  from classify_category_map a b c show ?thesis by blast
qed


section \<open>Grouped sums\<close>

lemma sum_list_indicator_absent:
  "k \<notin> set ks \<Longrightarrow> (\<Sum>k'\<leftarrow>ks. if k = k' then v else (0::real)) = 0"
  by (induction ks) auto

lemma sum_list_indicator:
  "distinct ks \<Longrightarrow> k \<in> set ks \<Longrightarrow> (\<Sum>k'\<leftarrow>ks. if k = k' then v else (0::real)) = v"
  by (induction ks) (auto simp: sum_list_indicator_absent)

lemma sum_list_indicator_Some:
  assumes "distinct ks"
  shows "(\<Sum>k\<leftarrow>ks. if ko = Some k then v else (0::real)) = (if ko \<in> Some ` set ks then v else 0)"
proof (cases ko)
  case None
  then show ?thesis by simp
next
  case (Some k0)
  have "(\<Sum>k\<leftarrow>ks. if ko = Some k then v else 0) = (\<Sum>k\<leftarrow>ks. if k0 = k then v else 0)"
    by (simp add: Some)
  also have "\<dots> = (if k0 \<in> set ks then v else 0)"
    using assms by (simp add: sum_list_indicator sum_list_indicator_absent)
  finally show ?thesis by (auto simp: Some)
qed

lemma group_sum_Nil: "group_sum key f [] k = 0"
  by (simp add: group_sum_def)

lemma group_sum_Cons:
  "group_sum key f (x # xs) k = (if key x = Some k then f x else 0) + group_sum key f xs k"
  by (simp add: group_sum_def)

lemma groupby_partition_mem:
  assumes "distinct ks"
  shows "(\<Sum>k\<leftarrow>ks. group_sum key f xs k)
         = sum_list (map f (filter (\<lambda>r. key r \<in> Some ` set ks) xs))"
proof (induction xs)
  case Nil
  show ?case by (simp add: group_sum_Nil)
next
  case (Cons x xs)
  have "(\<Sum>k\<leftarrow>ks. group_sum key f (x # xs) k)
        = (\<Sum>k\<leftarrow>ks. if key x = Some k then f x else 0) + (\<Sum>k\<leftarrow>ks. group_sum key f xs k)"
    by (simp add: group_sum_Cons sum_list_addf)
  also have "(\<Sum>k\<leftarrow>ks. if key x = Some k then f x else 0)
        = (if key x \<in> Some ` set ks then f x else 0)"
    by (rule sum_list_indicator_Some [OF assms])
  finally show ?case using Cons.IH by simp
qed

lemma set_map_filter_Some:
  "set (List.map_filter g xs) = {y. \<exists>x \<in> set xs. g x = Some y}"
  by (induction xs) (auto simp: map_filter_simps split: option.splits)

lemma distinct_groupby_keys: "distinct (groupby_keys key xs)"
  by (simp add: groupby_keys_def)

lemma set_groupby_keys: "set (groupby_keys key xs) = {k. Some k \<in> key ` set xs}"
  by (force simp: groupby_keys_def set_map_filter_Some image_iff)

text \<open>The groups hold the rows that have a key, each of them once.\<close>

lemma groupby_sum_total:
  "(\<Sum>k\<leftarrow>groupby_keys key xs. group_sum key f xs k)
     = sum_list (map f (filter (\<lambda>r. key r \<noteq> None) xs))"
proof -
  have "(\<Sum>k\<leftarrow>groupby_keys key xs. group_sum key f xs k)
        = sum_list (map f (filter (\<lambda>r. key r \<in> Some ` set (groupby_keys key xs)) xs))"
    by (rule groupby_partition_mem) (rule distinct_groupby_keys)
  also have "filter (\<lambda>r. key r \<in> Some ` set (groupby_keys key xs)) xs
        = filter (\<lambda>r. key r \<noteq> None) xs"
    by (rule filter_cong [OF refl]) (force simp: set_groupby_keys image_iff)
  finally show ?thesis .
qed




lemma dealer_groups_names: "map dealer_name (dealer_groups df) = groupby_keys customer_name df"
  by (simp add: dealer_groups_def comp_def)

lemma dealer_groups_sales:
  "d \<in> set (dealer_groups df) \<Longrightarrow> total_sales d = group_sum customer_name item_total df (dealer_name d)"
  by (auto simp: dealer_groups_def)

text \<open>
  Whatever order the sort gives the dealer summary, it has one row for every customer
  name of the table, and the row holds the sum of the item totals of that customer's rows.
\<close>

lemma dealer_stats_rows:
  assumes "dealer_stats df ys"
  shows "distinct (map dealer_name ys)"
    and "set (map dealer_name ys) = {c. Some c \<in> customer_name ` set df}"
    and "\<And>d. d \<in> set ys \<Longrightarrow> total_sales d = group_sum customer_name item_total df (dealer_name d)"
proof -
  from assms have perm: "mset ys = mset (dealer_groups df)"
    by (simp add: dealer_stats_def sort_values_desc_def)
  from perm have sets: "set ys = set (dealer_groups df)" by (rule mset_eq_setD)
  have names: "mset (map dealer_name ys) = mset (groupby_keys customer_name df)"
    using perm by (metis dealer_groups_names mset_map)
  show "distinct (map dealer_name ys)"
    using names distinct_groupby_keys by (metis mset_eq_imp_distinct_iff)
  have "set (map dealer_name ys) = set (groupby_keys customer_name df)"
    using names by (rule mset_eq_setD)
  then show "set (map dealer_name ys) = {c. Some c \<in> customer_name ` set df}"
    by (simp only: set_groupby_keys)
  show "total_sales d = group_sum customer_name item_total df (dealer_name d)"
    if "d \<in> set ys" for d
    using that sets dealer_groups_sales by blast
qed

lemma Some_image_Collect: "Some ` {c. Some c \<in> A} = A - {None}"
proof (rule set_eqI)
  fix x show "(x \<in> Some ` {c. Some c \<in> A}) = (x \<in> A - {None})"
    by (cases x) auto
qed


subsection \<open>Columns of whole numbers\<close>

lemma sum_list_filter_split:
  "sum_list (map f xs)
     = sum_list (map f (filter P xs)) + (sum_list (map f (filter (\<lambda>x. \<not> P x) xs)) :: real)"
  by (induction xs) simp_all








lemma str_contains_Nil: "str_contains s [] = True"
  by (cases s) simp_all

lemma search_of_input_Nil: "search_of_input [] = []"
  by (simp add: search_of_input_def str_strip_def str_lower_def)

text \<open>
  Claim C8. With an empty search string the substring filters keep every row: the dealer
  search of \<^verbatim>\<open>streamlit_app.py\<close> matches the empty pattern in every name, and
  \<^verbatim>\<open>streamlit_app_3.py\<close> skips the product search when the string is empty, so the result
  is that of the category and tier selections alone, and the whole table when both are
  \<open>All\<close>.
\<close>

theorem empty_search_is_identity:
  "filtered_dealers '''' ds = ds
   \<and> filtered_df ''All'' ''All'' '''' df = df
   \<and> filtered_df pt ct '''' df =
       filter (\<lambda>r. (pt = ''All'' \<or> category r = pt) \<and> (ct = ''All'' \<or> customer_type r = Some ct)) df"
  by (auto simp: filtered_dealers_def filtered_df_def apply_filters_def search_of_input_Nil
      str_contains_Nil Let_def)


lemma base_rows_3_fields:
  "map customer_name (load_app_3 parse raws) = map customer_name (base_rows_3 parse raws)"
  "map item_total (load_app_3 parse raws) = map item_total (base_rows_3 parse raws)"
  by (simp_all add: load_app_3_def merge_customer_type_def comp_def)

lemma group_sum_cong_fields:
  assumes "map key xs = map key' ys" and "map f xs = map f' ys"
  shows "group_sum key f xs k = group_sum key' f' ys k"
proof -
  have len: "length xs = length ys" using assms(1) by (metis length_map)
  from len assms show ?thesis
    by (induction xs ys rule: list_induct2) (simp_all add: group_sum_Nil group_sum_Cons)
qed

lemma map_of_customer_types:
  assumes "Some c \<in> customer_name ` set df"
  shows "map_of (customer_types df) c = Some (classify_customer (group_sum customer_name item_total df c))"
proof -
  have "customer_types df =
        map (\<lambda>c. (c, classify_customer (group_sum customer_name item_total df c)))
          (groupby_keys customer_name df)"
    by (simp add: customer_types_def customer_summary_def comp_def)
  moreover have "c \<in> set (groupby_keys customer_name df)"
    using assms by (simp add: set_groupby_keys)
  ultimately show ?thesis
    by (simp add: map_of_map_restrict restrict_map_def)
qed

text \<open>
  In the table of \<^verbatim>\<open>streamlit_app_3.py\<close> a row with a customer name carries the tier of
  that customer's total over the whole table, and a row without customer name carries
  no tier.
\<close>

lemma load_app_3_tier:
  assumes "r \<in> set (load_app_3 parse raws)"
  shows "customer_type r
         = map_option (\<lambda>c. classify_customer
              (group_sum customer_name item_total (load_app_3 parse raws) c)) (customer_name r)"
proof -
  let ?base = "base_rows_3 parse raws"
  from assms obtain b where b: "b \<in> set ?base"
    and r: "r = b\<lparr>customer_type := (case customer_name b of None \<Rightarrow> None
                                      | Some c \<Rightarrow> map_of (customer_types ?base) c),
                     month := strftime_b_y (challan_date b)\<rparr>"
    by (auto simp: load_app_3_def merge_customer_type_def)
  show ?thesis
  proof (cases "customer_name b")
    case None
    then show ?thesis by (simp add: r)
  next
    case (Some c)
    have "Some c \<in> customer_name ` set ?base"
      using b Some by (metis image_eqI)
    then have "map_of (customer_types ?base) c
          = Some (classify_customer (group_sum customer_name item_total ?base c))"
      by (rule map_of_customer_types)
    moreover have "group_sum customer_name item_total (load_app_3 parse raws) c
          = group_sum customer_name item_total ?base c"
      by (rule group_sum_cong_fields) (rule base_rows_3_fields)+
    ultimately show ?thesis by (simp add: r Some)
  qed
qed

lemma load_app_3_month:
  "r \<in> set (load_app_3 parse raws) \<Longrightarrow> month r = strftime_b_y (challan_date r)"
  by (auto simp: load_app_3_def merge_customer_type_def)

lemma apply_filters_subset: "set (apply_filters pt ct s df) \<subseteq> set df"
  by (auto simp: apply_filters_def Let_def)

lemma summary_tier:
  assumes "s \<in> set (summary df)"
  shows "summary_type s = classify_customer (group_sum customer_name item_total df (summary_customer s))"
  using assms by (auto simp: summary_def)

lemma filtered_summary_subset: "set (filtered_summary t c rows) \<subseteq> set rows"
  by (auto simp: filtered_summary_def Let_def)

text \<open>
  Claim C9. Every row that a view shows carries the tier computed from its customer's
  item totals over the complete table. In \<^verbatim>\<open>streamlit_app_3.py\<close> the tier column is
  merged in before any filter runs, and the filters only select rows; a row without
  customer name belongs to no customer and carries no tier, under every filter. In
  \<^verbatim>\<open>streamlit_app_2.py\<close> the tier is a column of the summary computed from the complete
  table, and the filters only select summary rows.
\<close>

theorem tier_from_full_dataset:
  "(\<forall>r \<in> set (filtered_df pt ct text (load_app_3 parse raws))
           \<union> set (heatmap_data pt ct text (load_app_3 parse raws)).
       r \<in> set (load_app_3 parse raws)
       \<and> customer_type r = map_option (\<lambda>c. classify_customer
           (group_sum customer_name item_total (load_app_3 parse raws) c)) (customer_name r))
   \<and> (\<forall>s \<in> set (filtered_summary t c (summary df)).
       s \<in> set (summary df)
       \<and> summary_type s = classify_customer
           (group_sum customer_name item_total df (summary_customer s)))"
proof (intro conjI ballI)
  fix r
  assume "r \<in> set (filtered_df pt ct text (load_app_3 parse raws))
            \<union> set (heatmap_data pt ct text (load_app_3 parse raws))"
  then show in_table: "r \<in> set (load_app_3 parse raws)"
    using apply_filters_subset by (fastforce simp: filtered_df_def heatmap_data_def)
  then show "customer_type r = map_option (\<lambda>c. classify_customer
           (group_sum customer_name item_total (load_app_3 parse raws) c)) (customer_name r)"
    by (rule load_app_3_tier)
next
  fix s
  assume "s \<in> set (filtered_summary t c (summary df))"
  then show in_summary: "s \<in> set (summary df)"
    using filtered_summary_subset by blast
  then show "summary_type s = classify_customer
           (group_sum customer_name item_total df (summary_customer s))"
    by (rule summary_tier)
qed

section \<open>The views on example data, and the order of the dealer summary\<close>



text \<open>The example table under a category, a tier and a product filter, for claim C9.\<close>

theorem tier_from_full_dataset_witness:
  "load_app_3 parse_iso example_raws ! 0
     \<in> set (filtered_df ''Bio-Stimulants'' ''Copper'' ''Sim'' (load_app_3 parse_iso example_raws))
   \<and> customer_type (load_app_3 parse_iso example_raws ! 0)
       = map_option (\<lambda>c. classify_customer (group_sum customer_name item_total
            (load_app_3 parse_iso example_raws) c))
           (customer_name (load_app_3 parse_iso example_raws ! 0))
   \<and> summary (load_app_2 example_raws) ! 1
     \<in> set (filtered_summary ''Copper'' ''B'' (summary (load_app_2 example_raws)))
   \<and> summary_type (summary (load_app_2 example_raws) ! 1)
       = classify_customer (group_sum customer_name item_total (load_app_2 example_raws)
            (summary_customer (summary (load_app_2 example_raws) ! 1)))"
proof -
  have a: "load_app_3 parse_iso example_raws ! 0
     \<in> set (filtered_df ''Bio-Stimulants'' ''Copper'' ''Sim'' (load_app_3 parse_iso example_raws))"
    by code_simp
  have b: "summary (load_app_2 example_raws) ! 1
     \<in> set (filtered_summary ''Copper'' ''B'' (summary (load_app_2 example_raws)))"
    by code_simp
  from tier_from_full_dataset [of "''Bio-Stimulants''" "''Copper''" "''Sim''" parse_iso example_raws
      "''Copper''" "''B''" "load_app_2 example_raws"] a b
  show ?thesis by blast
qed

text \<open>
  Claim C5. The dealer summary is in descending order of total sales, where a dealer's
  total sales is the sum of the item totals of that dealer's rows, and every customer of
  the table has exactly one row. The order of dealers with equal totals is left open: the
  frame is sorted by name when \<^verbatim>\<open>sort_values\<close> receives it, but the sort is the default
  \<^verbatim>\<open>quicksort\<close>, which need not keep equal keys in their former order. This is what holds
  of every result the sort can give.
\<close>

theorem dealer_stats_descending:
  assumes "dealer_stats df ys"
  shows "sorted_wrt (\<lambda>a b. group_sum customer_name item_total df (dealer_name a)
                         \<ge> group_sum customer_name item_total df (dealer_name b)) ys
         \<and> map total_sales ys = map (\<lambda>d. group_sum customer_name item_total df (dealer_name d)) ys
         \<and> distinct (map dealer_name ys)
         \<and> Some ` set (map dealer_name ys) = customer_name ` set df - {None}"
proof -
  from assms have srt: "sorted_wrt (\<lambda>a b. total_sales a \<ge> total_sales b) ys"
    by (simp add: dealer_stats_def sort_values_desc_def)
  have sales: "total_sales d = group_sum customer_name item_total df (dealer_name d)"
    if "d \<in> set ys" for d
    using assms that by (rule dealer_stats_rows)
  have "sorted_wrt (\<lambda>a b. group_sum customer_name item_total df (dealer_name a)
                         \<ge> group_sum customer_name item_total df (dealer_name b)) ys"
    using srt by (rule sorted_wrt_mono_rel [rotated]) (simp add: sales)
  moreover have "map total_sales ys
      = map (\<lambda>d. group_sum customer_name item_total df (dealer_name d)) ys"
    by (simp add: sales)
  moreover have "distinct (map dealer_name ys)"
    using assms by (rule dealer_stats_rows)
  moreover have "Some ` set (map dealer_name ys) = customer_name ` set df - {None}"
    unfolding dealer_stats_rows(2) [OF assms] by (rule Some_image_Collect)
  ultimately show ?thesis by simp
qed

text \<open>The example table, whose two dealers have different totals.\<close>

theorem dealer_stats_descending_witness:
  "dealer_stats (load_app_2 example_raws) (dealer_groups (load_app_2 example_raws))
   \<and> map total_sales (dealer_groups (load_app_2 example_raws))
      = map (\<lambda>d. group_sum customer_name item_total (load_app_2 example_raws) (dealer_name d))
          (dealer_groups (load_app_2 example_raws))
   \<and> distinct (map dealer_name (dealer_groups (load_app_2 example_raws)))"
proof -
  let ?df = "load_app_2 example_raws"
  have s: "sorted_wrt (\<lambda>a b. total_sales a \<ge> total_sales b) (dealer_groups ?df)"
    by code_simp
  have h: "dealer_stats ?df (dealer_groups ?df)"
    using s by (simp add: dealer_stats_def sort_values_desc_def)
  from dealer_stats_descending [OF h] h show ?thesis by simp
qed

text \<open>
  Claim C5, as stated, fails: eighteen dealers with the same total, and a descending
  arrangement of them that the sort is free to return, in which \<open>Dealer 17\<close> stands
  before \<open>Dealer 03\<close>. (The quicksort of numpy partitions an array of more than sixteen
  elements by swapping, equal keys included, before it falls back to insertion sort.)
\<close>

theorem tie_break_counterexample:
  "load_app parse_iso tied_raws = Inr tied_df
   \<and> dealer_stats tied_df tied_outcome
   \<and> \<not> tie_break_by_name tied_outcome"
proof -
  have a: "load_app parse_iso tied_raws = Inr tied_df"
    by code_simp
  have b: "dealer_groups tied_df = sort_key dealer_name tied_outcome"
    by code_simp
  have c: "sorted_wrt (\<lambda>a b. total_sales a \<ge> total_sales b) tied_outcome"
    by code_simp
  have d: "\<not> tie_break_by_name tied_outcome"
    by code_simp
  have "dealer_stats tied_df tied_outcome"
    unfolding dealer_stats_def sort_values_desc_def b using c by simp
  with a d show ?thesis by simp
qed

text \<open>
  Claim C3. In \<^verbatim>\<open>streamlit_app.py\<close> the category share divides by the customer's total
  without a guard. Dealer \<open>B\<close> of the example has a total of zero: the share of the one
  category is \<open>0 / 0\<close>, not-a-number, where the claim asks for 0 percent.
\<close>

theorem category_share_zero_total:
  "map_sum id (\<lambda>df. category_share_pct (customer_data df ''B'')) (load_app parse_iso example_raws)
     = Inr [(''Other Bulk Orders'', 0, NaN)]"
  by code_simp

text \<open>
  Claim C4. \<^verbatim>\<open>streamlit_app.py\<close> calls \<^verbatim>\<open>pd.to_datetime\<close> in its default mode, so a single
  line with unreadable date text makes the load raise, and no view is computed.
\<close>

theorem unparseable_date_raises:
  "load_app parse_iso (example_raws @ [undated_raw]) = Inl (DateParseError ''not a date'')"
  by code_simp

text \<open>
  Claim C6. The columns of the quantity pivot are the month labels in the order of
  \<^verbatim>\<open>groupby\<close>, which sorts the labels as text: April 2024 comes before January 2024.
\<close>

theorem pivot_columns_string_order:
  "pivot_columns (filtered_df ''All'' ''All'' '''' (load_app_3 parse_iso example_raws))
     = [''Apr 24'', ''Feb 24'', ''Jan 24'']"
  by code_simp

text \<open>The heat map of the same file re-sorts its columns by date.\<close>

lemma heatmap_columns_calendar_order:
  "heatmap_columns (filtered_df ''All'' ''All'' '''' (load_app_3 parse_iso example_raws))
     = [''Jan 24'', ''Feb 24'', ''Apr 24'']"
  by code_simp

section \<open>The quantity pivot and the heat maps\<close>

lemma sum_list_product:
  "(\<Sum>k\<leftarrow>ks. \<Sum>m\<leftarrow>ms. g (k, m)) = (\<Sum>p\<leftarrow>List.product ks ms. (g p :: real))"
  by (induction ks) (simp_all add: comp_def)

text \<open>
  Turning the inner key of a grouping into columns loses no group: the cells of the
  resulting matrix add up to the sum over the rows that have a key.
\<close>

lemma unstack_sum:
  assumes idx: "set idx = fst ` set (groupby_keys key xs)" and didx: "distinct idx"
    and cols: "set cols = snd ` set (groupby_keys key xs)" and dcols: "distinct cols"
  shows "(\<Sum>k\<leftarrow>idx. \<Sum>m\<leftarrow>cols. group_sum key f xs (k, m))
         = sum_list (map f (filter (\<lambda>r. key r \<noteq> None) xs))"
proof -
  let ?P = "List.product idx cols"
  have d: "distinct ?P" using didx dcols by (rule distinct_product)
  have "(\<Sum>k\<leftarrow>idx. \<Sum>m\<leftarrow>cols. group_sum key f xs (k, m)) = (\<Sum>p\<leftarrow>?P. group_sum key f xs p)"
    by (rule sum_list_product)
  also have "\<dots> = sum_list (map f (filter (\<lambda>r. key r \<in> Some ` set ?P) xs))"
    by (rule groupby_partition_mem [OF d])
  also have "filter (\<lambda>r. key r \<in> Some ` set ?P) xs = filter (\<lambda>r. key r \<noteq> None) xs"
  proof (rule filter_cong [OF refl])
    fix r assume r: "r \<in> set xs"
    show "(key r \<in> Some ` set ?P) = (key r \<noteq> None)"
    proof (cases "key r")
      case None
      then show ?thesis by auto
    next
      case (Some p)
      then have "p \<in> set (groupby_keys key xs)"
        using r by (auto simp: set_groupby_keys image_iff intro: bexI [of _ r])
      then have "fst p \<in> set idx" and "snd p \<in> set cols"
        by (simp_all add: idx cols)
      then have "p \<in> set ?P" by (cases p) simp
      then show ?thesis by (simp add: Some)
    qed
  qed
  finally show ?thesis .
qed

lemma pivot_key_None: "(pivot_key r \<noteq> None) = (item_name r \<noteq> None \<and> month r \<noteq> None)"
  by (simp add: pivot_key_def split: option.splits)

lemma heatmap_key_None: "(heatmap_key r \<noteq> None) = (item_name r \<noteq> None \<and> month r \<noteq> None)"
  by (simp add: heatmap_key_def split: option.splits)

text \<open>
  The cells of the quantity pivot add up to the quantity of the rows that have an item
  name and a month.
\<close>

lemma pivot_cell_sum:
  "cell_sum (pivot_qty fd)
     = sum_list (map quantity_ordered
         (filter (\<lambda>r. item_name r \<noteq> None \<and> month r \<noteq> None) fd))"
proof -
  have "cell_sum (pivot_qty fd)
        = (\<Sum>k\<leftarrow>pivot_index fd. \<Sum>m\<leftarrow>pivot_columns fd.
             group_sum pivot_key quantity_ordered fd (k, m))"
    by (simp add: cell_sum_def pivot_qty_def pivot_cell_def [abs_def] comp_def)
  also have "\<dots> = sum_list (map quantity_ordered (filter (\<lambda>r. pivot_key r \<noteq> None) fd))"
    by (rule unstack_sum) (simp_all add: pivot_index_def pivot_columns_def)
  finally show ?thesis by (simp only: pivot_key_None)
qed

lemma sum_list_positive_part:
  "(\<And>x. x \<in> set xs \<Longrightarrow> 0 \<le> g x)
   \<Longrightarrow> sum_list (map g (filter (\<lambda>x. g x > 0) xs)) = (sum_list (map g xs) :: real)"
proof (induction xs)
  case Nil
  show ?case by simp
next
  case (Cons x xs)
  have "0 \<le> g x" using Cons.prems by simp
  then have "\<not> g x > 0 \<Longrightarrow> g x = 0" by simp
  then show ?case using Cons by auto
qed

lemma group_sum_nonneg:
  "(\<And>r. r \<in> set xs \<Longrightarrow> 0 \<le> f r) \<Longrightarrow> 0 \<le> group_sum key f xs k"
  unfolding group_sum_def by (rule sum_list_nonneg) auto

text \<open>
  When no quantity is negative, dropping the rows of a heat map whose sum is not positive
  drops only cells that are 0.
\<close>

lemma heatmap_pivot_cell_sum:
  assumes "\<And>r. r \<in> set s \<Longrightarrow> 0 \<le> quantity_ordered r"
  shows "cell_sum (heatmap_pivot s)
         = sum_list (map quantity_ordered (filter (\<lambda>r. heatmap_key r \<noteq> None) s))"
proof -
  let ?rs = "\<lambda>i. \<Sum>m\<leftarrow>heatmap_columns s. group_sum heatmap_key quantity_ordered s (i, m)"
  let ?items = "remdups (map fst (groupby_keys heatmap_key s))"
  have nonneg: "0 \<le> ?rs i" for i
    by (rule sum_list_nonneg) (auto intro: group_sum_nonneg assms)
  have "cell_sum (heatmap_pivot s) = sum_list (map ?rs (filter (\<lambda>i. ?rs i > 0) ?items))"
    by (simp add: cell_sum_def heatmap_pivot_def heatmap_cell_def [abs_def] filter_map comp_def)
  also have "\<dots> = sum_list (map ?rs ?items)"
    by (rule sum_list_positive_part) (rule nonneg)
  also have "\<dots> = sum_list (map quantity_ordered (filter (\<lambda>r. heatmap_key r \<noteq> None) s))"
    by (rule unstack_sum) (simp_all add: heatmap_columns_def)
  finally show ?thesis .
qed

lemma sum_list_map_filter_option:
  "sum_list (map g (List.map_filter h ts))
     = (\<Sum>t\<leftarrow>ts. case h t of None \<Rightarrow> 0 | Some y \<Rightarrow> (g y :: real))"
  by (induction ts) (simp_all add: map_filter_simps split: option.splits)

lemma heatmaps_cell_sum_tiers:
  "heatmaps_cell_sum (heatmaps hdata)
     = (\<Sum>t\<leftarrow>heatmap_tiers.
          if filter (\<lambda>r. customer_type r = Some t) (heatmap_prepare hdata) = [] then 0
          else cell_sum (heatmap_pivot
                 (filter (\<lambda>r. customer_type r = Some t) (heatmap_prepare hdata))))"
  unfolding heatmaps_def heatmaps_cell_sum_def sum_list_map_filter_option
  by (rule arg_cong [where f = sum_list]) (simp add: Let_def)

lemma heatmap_prepare_filter_sum:
  "sum_list (map quantity_ordered (filter P (heatmap_prepare hdata)))
     = sum_list (map quantity_ordered
         (filter (\<lambda>r. P (r\<lparr>month := strftime_b_y (challan_date r),
                            item_name := Some (case item_name r of None \<Rightarrow> ''Unknown Item''
                                               | Some i \<Rightarrow> i)\<rparr>)) hdata))"
  by (induction hdata) (simp_all add: heatmap_prepare_def)

text \<open>
  The cells of all heat maps add up to the quantity of the rows that have one of the
  four tiers and a date: the item name of a row plays no part, since a missing one has
  been replaced.
\<close>

lemma heatmaps_cell_sum_total:
  assumes nonneg: "\<And>r. r \<in> set hdata \<Longrightarrow> 0 \<le> quantity_ordered r"
  shows "heatmaps_cell_sum (heatmaps hdata)
         = sum_list (map quantity_ordered
             (filter (\<lambda>r. customer_type r \<in> Some ` set heatmap_tiers
                          \<and> strftime_b_y (challan_date r) \<noteq> None) hdata))"
proof -
  let ?hd = "heatmap_prepare hdata"
  let ?sub = "\<lambda>t. filter (\<lambda>r. customer_type r = Some t) ?hd"
  let ?keyed = "filter (\<lambda>r. heatmap_key r \<noteq> None) ?hd"
  have nonneg': "0 \<le> quantity_ordered r" if "r \<in> set ?hd" for r
    using that nonneg by (auto simp: heatmap_prepare_def)
  have each: "(if ?sub t = [] then 0 else cell_sum (heatmap_pivot (?sub t)))
        = group_sum customer_type quantity_ordered ?keyed t" for t
  proof -
    have swap: "filter (\<lambda>r. heatmap_key r \<noteq> None) (?sub t)
          = filter (\<lambda>r. customer_type r = Some t) ?keyed"
      by (simp only: filter_filter conj_commute)
    have "cell_sum (heatmap_pivot (?sub t))
          = sum_list (map quantity_ordered (filter (\<lambda>r. heatmap_key r \<noteq> None) (?sub t)))"
      by (rule heatmap_pivot_cell_sum) (simp add: nonneg')
    then have full: "cell_sum (heatmap_pivot (?sub t))
          = group_sum customer_type quantity_ordered ?keyed t"
      by (simp only: swap group_sum_def)
    show ?thesis
    proof (cases "?sub t = []")
      case True
      have "group_sum customer_type quantity_ordered ?keyed t
            = sum_list (map quantity_ordered (filter (\<lambda>r. heatmap_key r \<noteq> None) (?sub t)))"
        by (simp only: swap group_sum_def)
      also have "\<dots> = 0" by (simp only: True filter.simps list.map sum_list.Nil)
      finally have z: "group_sum customer_type quantity_ordered ?keyed t = 0" .
      show ?thesis unfolding z True by simp
    next
      case False
      then show ?thesis by (simp only: full if_False)
    qed
  qed
  have "heatmaps_cell_sum (heatmaps hdata)
        = (\<Sum>t\<leftarrow>heatmap_tiers. group_sum customer_type quantity_ordered ?keyed t)"
    by (simp only: heatmaps_cell_sum_tiers each)
  also have "\<dots> = sum_list (map quantity_ordered
        (filter (\<lambda>r. customer_type r \<in> Some ` set heatmap_tiers) ?keyed))"
    by (rule groupby_partition_mem) (simp add: heatmap_tiers_def)
  also have "\<dots> = sum_list (map quantity_ordered
        (filter (\<lambda>r. customer_type r \<in> Some ` set heatmap_tiers \<and> heatmap_key r \<noteq> None) ?hd))"
    by (simp add: conj_commute)
  also have "\<dots> = sum_list (map quantity_ordered
             (filter (\<lambda>r. customer_type r \<in> Some ` set heatmap_tiers
                          \<and> strftime_b_y (challan_date r) \<noteq> None) hdata))"
    by (simp add: heatmap_prepare_filter_sum heatmap_key_None del: not_None_eq)
  finally show ?thesis .
qed

lemma apply_filters_filter:
  "apply_filters pt ct s (filter P df) = filter P (apply_filters pt ct s df)"
  by (auto simp: apply_filters_def Let_def conj_commute intro: filter_cong)

lemma heatmap_data_filtered_df:
  "heatmap_data pt ct text df
     = filter (\<lambda>r. category r \<noteq> ''Other Bulk Orders'') (filtered_df pt ct text df)"
  by (simp add: heatmap_data_def filtered_df_def apply_filters_filter)

lemma classify_customer_tier: "classify_customer a \<in> set heatmap_tiers"
  by (simp add: classify_customer_def heatmap_tiers_def)

lemma load_app_3_quantity:
  "r \<in> set (load_app_3 parse raws) \<Longrightarrow> quantity_ordered r \<in> raw_quantity ` set raws"
  by (auto simp: load_app_3_def merge_customer_type_def base_rows_3_def)

lemma load_app_3_names:
  assumes "r \<in> set (load_app_3 parse raws)"
  shows "\<exists>raw \<in> set raws. (customer_name r = None) = (raw_customer_name raw = None)
                        \<and> (item_name r = None) = (raw_item_name raw = None)"
  using assms by (auto simp: load_app_3_def merge_customer_type_def base_rows_3_def)

lemma load_app_3_has_tier:
  assumes "r \<in> set (load_app_3 parse raws)"
  shows "(customer_type r \<in> Some ` set heatmap_tiers) = (customer_name r \<noteq> None)"
proof (cases "customer_name r")
  case None
  then show ?thesis using load_app_3_tier [OF assms] by simp
next
  case (Some c)
  then show ?thesis using load_app_3_tier [OF assms] classify_customer_tier by simp
qed

text \<open>
  Claim C10. The heat maps are computed from exactly the rows of the filtered table whose
  category is not \<open>Other Bulk Orders\<close>, whatever the category selection, while the
  quantity pivot is computed from all rows of the filtered table. For a search term
  without special characters and quantities that are whole numbers, none negative, of a
  sum below \<^verbatim>\<open>2**53\<close>:
  the cells of the pivot add up to the quantity of the filtered rows that have an item
  name and a date; the cells of all heat maps add up to the quantity of the filtered rows
  outside the bulk orders that have a customer name and a date. On a file in which every
  line has a customer name and an item name, the pivot sum is therefore the sum of the
  heat maps plus the quantity of the dated bulk-order rows that passed the filters, and
  the two sums differ exactly when that quantity is not zero.
\<close>

theorem heatmap_excludes_bulk_orders:
  "heatmap_data pt ct text (load_app_3 parse raws)
     = filter (\<lambda>r. category r \<noteq> ''Other Bulk Orders'')
         (filtered_df pt ct text (load_app_3 parse raws))
   \<and> (plain_pattern (search_of_input text) \<and> whole_numbers (map raw_quantity raws)
        \<and> (\<forall>r \<in> set raws. 0 \<le> raw_quantity r) \<longrightarrow>
        cell_sum (pivot_qty (filtered_df pt ct text (load_app_3 parse raws)))
          = sum_list (map quantity_ordered
              (filter (\<lambda>r. item_name r \<noteq> None \<and> month r \<noteq> None)
                 (filtered_df pt ct text (load_app_3 parse raws))))
        \<and> heatmaps_cell_sum (heatmaps (heatmap_data pt ct text (load_app_3 parse raws)))
          = sum_list (map quantity_ordered
              (filter (\<lambda>r. customer_name r \<noteq> None \<and> month r \<noteq> None)
                 (heatmap_data pt ct text (load_app_3 parse raws))))
        \<and> ((\<forall>r \<in> set raws. raw_customer_name r \<noteq> None \<and> raw_item_name r \<noteq> None) \<longrightarrow>
             cell_sum (pivot_qty (filtered_df pt ct text (load_app_3 parse raws)))
               = heatmaps_cell_sum (heatmaps (heatmap_data pt ct text (load_app_3 parse raws)))
                 + sum_list (map quantity_ordered
                     (filter (\<lambda>r. category r = ''Other Bulk Orders'' \<and> month r \<noteq> None)
                        (filtered_df pt ct text (load_app_3 parse raws))))))"
proof (intro conjI impI)
  let ?df = "load_app_3 parse raws"
  let ?fd = "filtered_df pt ct text ?df"
  let ?hd = "heatmap_data pt ct text ?df"
  show hd: "?hd = filter (\<lambda>r. category r \<noteq> ''Other Bulk Orders'') ?fd"
    by (rule heatmap_data_filtered_df)
  have fd_df: "r \<in> set ?df" if "r \<in> set ?fd" for r
    using that apply_filters_subset by (fastforce simp: filtered_df_def)
  have hd_df: "r \<in> set ?df" if "r \<in> set ?hd" for r
    using that apply_filters_subset by (fastforce simp: heatmap_data_def)
  show pivot: "cell_sum (pivot_qty ?fd)
      = sum_list (map quantity_ordered
          (filter (\<lambda>r. item_name r \<noteq> None \<and> month r \<noteq> None) ?fd))"
    by (rule pivot_cell_sum)
  assume "plain_pattern (search_of_input text) \<and> whole_numbers (map raw_quantity raws)
        \<and> (\<forall>r \<in> set raws. 0 \<le> raw_quantity r)"
  then have q: "\<forall>r \<in> set raws. 0 \<le> raw_quantity r" by simp
  have nonneg: "0 \<le> quantity_ordered r" if "r \<in> set ?hd" for r
    using load_app_3_quantity [OF hd_df [OF that]] q by auto
  have "heatmaps_cell_sum (heatmaps ?hd)
        = sum_list (map quantity_ordered
            (filter (\<lambda>r. customer_type r \<in> Some ` set heatmap_tiers
                         \<and> strftime_b_y (challan_date r) \<noteq> None) ?hd))"
    by (rule heatmaps_cell_sum_total) (rule nonneg)
  also have "filter (\<lambda>r. customer_type r \<in> Some ` set heatmap_tiers
                         \<and> strftime_b_y (challan_date r) \<noteq> None) ?hd
        = filter (\<lambda>r. customer_name r \<noteq> None \<and> month r \<noteq> None) ?hd"
    by (rule filter_cong [OF refl])
      (simp add: load_app_3_has_tier [OF hd_df] load_app_3_month [OF hd_df])
  finally show heat: "heatmaps_cell_sum (heatmaps ?hd)
      = sum_list (map quantity_ordered
          (filter (\<lambda>r. customer_name r \<noteq> None \<and> month r \<noteq> None) ?hd))" .
  assume full: "\<forall>r \<in> set raws. raw_customer_name r \<noteq> None \<and> raw_item_name r \<noteq> None"
  have named: "customer_name r \<noteq> None \<and> item_name r \<noteq> None" if "r \<in> set ?fd" for r
    using load_app_3_names [OF fd_df [OF that]] full by auto
  have "filter (\<lambda>r. item_name r \<noteq> None \<and> month r \<noteq> None) ?fd
        = filter (\<lambda>r. month r \<noteq> None) ?fd"
    by (rule filter_cong [OF refl]) (simp add: named)
  then have p: "cell_sum (pivot_qty ?fd)
        = sum_list (map quantity_ordered (filter (\<lambda>r. month r \<noteq> None) ?fd))"
    using pivot by simp
  have "filter (\<lambda>r. customer_name r \<noteq> None \<and> month r \<noteq> None) ?hd
        = filter (\<lambda>r. category r \<noteq> ''Other Bulk Orders'') (filter (\<lambda>r. month r \<noteq> None) ?fd)"
    unfolding hd filter_filter by (rule filter_cong [OF refl]) (auto simp: named)
  then have h: "heatmaps_cell_sum (heatmaps ?hd)
        = sum_list (map quantity_ordered
            (filter (\<lambda>r. category r \<noteq> ''Other Bulk Orders'') (filter (\<lambda>r. month r \<noteq> None) ?fd)))"
    using heat by simp
  have "filter (\<lambda>r. category r = ''Other Bulk Orders'' \<and> month r \<noteq> None) ?fd
        = filter (\<lambda>r. \<not> category r \<noteq> ''Other Bulk Orders'') (filter (\<lambda>r. month r \<noteq> None) ?fd)"
    by (simp add: conj_commute)
  then show "cell_sum (pivot_qty ?fd)
      = heatmaps_cell_sum (heatmaps ?hd)
        + sum_list (map quantity_ordered
            (filter (\<lambda>r. category r = ''Other Bulk Orders'' \<and> month r \<noteq> None) ?fd))"
    unfolding p h
    using sum_list_filter_split [of quantity_ordered "filter (\<lambda>r. month r \<noteq> None) ?fd"
        "\<lambda>r. category r \<noteq> ''Other Bulk Orders''"]
    by simp
qed

text \<open>
  The example file with its two incomplete lines, without any filter. The line without
  item name is in the heat map of its dealer's tier and not in the pivot; the line without
  customer name is in the pivot and in no heat map: 15 in the pivot, 7 in the heat maps.
  And the example file itself, in which no name is missing: 8 in the pivot, 3 in the heat
  maps, 5 in bulk.
\<close>

theorem heatmap_excludes_bulk_orders_witness:
  "cell_sum (pivot_qty (filtered_df ''All'' ''All'' [] (load_app_3 parse_iso gappy_raws))) = 15
   \<and> heatmaps_cell_sum (heatmaps (heatmap_data ''All'' ''All'' []
        (load_app_3 parse_iso gappy_raws))) = 7
   \<and> cell_sum (pivot_qty (filtered_df ''All'' ''All'' [] (load_app_3 parse_iso example_raws))) = 8
   \<and> heatmaps_cell_sum (heatmaps (heatmap_data ''All'' ''All'' []
        (load_app_3 parse_iso example_raws))) = 3
   \<and> sum_list (map quantity_ordered
        (filter (\<lambda>r. category r = ''Other Bulk Orders'' \<and> month r \<noteq> None)
           (filtered_df ''All'' ''All'' [] (load_app_3 parse_iso example_raws)))) = 5"
proof -
  have pl: "plain_pattern (search_of_input [])"
    by (simp add: plain_pattern_def search_of_input_Nil)
  have wg: "whole_numbers (map raw_quantity gappy_raws)"
    by (simp add: whole_numbers_def gappy_raws_def example_raws_def)
  have qg: "\<forall>r \<in> set gappy_raws. 0 \<le> raw_quantity r"
    by (simp add: gappy_raws_def example_raws_def)
  have we: "whole_numbers (map raw_quantity example_raws)"
    by (simp add: whole_numbers_def example_raws_def)
  have qe: "\<forall>r \<in> set example_raws. 0 \<le> raw_quantity r"
    by (simp add: example_raws_def)
  have ne: "\<forall>r \<in> set example_raws. raw_customer_name r \<noteq> None \<and> raw_item_name r \<noteq> None"
    by (simp add: example_raws_def)
  have pg: "sum_list (map quantity_ordered
              (filter (\<lambda>r. item_name r \<noteq> None \<and> month r \<noteq> None)
                 (filtered_df ''All'' ''All'' [] (load_app_3 parse_iso gappy_raws)))) = 15"
    by code_simp
  have hg: "sum_list (map quantity_ordered
              (filter (\<lambda>r. customer_name r \<noteq> None \<and> month r \<noteq> None)
                 (heatmap_data ''All'' ''All'' [] (load_app_3 parse_iso gappy_raws)))) = 7"
    by code_simp
  have he: "sum_list (map quantity_ordered
              (filter (\<lambda>r. customer_name r \<noteq> None \<and> month r \<noteq> None)
                 (heatmap_data ''All'' ''All'' [] (load_app_3 parse_iso example_raws)))) = 3"
    by code_simp
  have be: "sum_list (map quantity_ordered
        (filter (\<lambda>r. category r = ''Other Bulk Orders'' \<and> month r \<noteq> None)
           (filtered_df ''All'' ''All'' [] (load_app_3 parse_iso example_raws)))) = 5"
    by code_simp
  from heatmap_excludes_bulk_orders [of "''All''" "''All''" "[]" parse_iso gappy_raws, THEN conjunct2]
    pl wg qg pg hg
  have g: "cell_sum (pivot_qty (filtered_df ''All'' ''All'' [] (load_app_3 parse_iso gappy_raws))) = 15
     \<and> heatmaps_cell_sum (heatmaps (heatmap_data ''All'' ''All'' []
          (load_app_3 parse_iso gappy_raws))) = 7"
    by simp
  from heatmap_excludes_bulk_orders [of "''All''" "''All''" "[]" parse_iso example_raws, THEN conjunct2]
    pl we qe ne he be
  have e: "cell_sum (pivot_qty (filtered_df ''All'' ''All'' [] (load_app_3 parse_iso example_raws))) = 8
     \<and> heatmaps_cell_sum (heatmaps (heatmap_data ''All'' ''All'' []
          (load_app_3 parse_iso example_raws))) = 3"
    by simp
  from g e be show ?thesis by simp
qed

text \<open>
  Claim C10, as stated, fails: a table can contain bulk-order rows while the two sums
  agree. In the example file under the category selection \<open>Bio-Stimulants\<close> the pivot
  leaves the bulk row out as well; and in a file whose bulk row has quantity zero the
  pivot keeps the row, without any filter, and the sums are both 2.
\<close>

theorem bulk_orders_equal_sums_counterexample:
  "category (load_app_3 parse_iso example_raws ! 2) = ''Other Bulk Orders''
   \<and> cell_sum (pivot_qty (filtered_df ''Bio-Stimulants'' ''All'' []
        (load_app_3 parse_iso example_raws))) = 3
   \<and> heatmaps_cell_sum (heatmaps (heatmap_data ''Bio-Stimulants'' ''All'' []
        (load_app_3 parse_iso example_raws))) = 3
   \<and> category (load_app_3 parse_iso free_bulk_raws ! 1) = ''Other Bulk Orders''
   \<and> load_app_3 parse_iso free_bulk_raws ! 1
        \<in> set (filtered_df ''All'' ''All'' [] (load_app_3 parse_iso free_bulk_raws))
   \<and> cell_sum (pivot_qty (filtered_df ''All'' ''All'' []
        (load_app_3 parse_iso free_bulk_raws))) = 2
   \<and> heatmaps_cell_sum (heatmaps (heatmap_data ''All'' ''All'' []
        (load_app_3 parse_iso free_bulk_raws))) = 2"
  by code_simp

section \<open>Unreadable dates and zero totals in general\<close>

text \<open>
  What the evaluations for claims C3 and C4 show on the example holds in general, and the
  sibling computations behave as those claims ask.
\<close>

lemma load_app_raises:
  assumes "r \<in> set raws" and "raw_challan_date r \<noteq> []" and "parse (raw_challan_date r) = None"
  shows "\<exists>e. load_app parse raws = Inl e"
  using assms(1)
proof (induction raws)
  case Nil
  then show ?case by simp
next
  case (Cons a raws)
  show ?case
  proof (cases "a = r")
    case True
    then show ?thesis using assms(2,3) by (simp add: to_datetime_raise_def)
  next
    case False
    then have "\<exists>e. load_app parse raws = Inl e" using Cons by simp
    then show ?thesis by (auto split: sum.splits)
  qed
qed

lemma load_app_3_length: "length (load_app_3 parse raws) = length raws"
  by (simp add: load_app_3_def merge_customer_type_def base_rows_3_def)

lemma load_app_3_keeps_undated_row:
  "map (\<lambda>r. (customer_name r, month r, customer_type r))
     (load_app_3 parse_iso (example_raws @ [undated_raw])) ! 3
       = (Some ''C'', None, Some ''Copper'')
   \<and> customer_summary (load_app_3 parse_iso (example_raws @ [undated_raw]))
       = [(''A'', 1500), (''B'', 0), (''C'', 700)]"
  by code_simp

text \<open>A line without customer name is kept in the table, without a tier.\<close>

lemma load_app_3_keeps_nameless_row:
  "map (\<lambda>r. (customer_name r, item_name r, customer_type r)) (load_app_3 parse_iso gappy_raws)
     = [(Some ''A'', Some ''simba'', Some ''Copper''), (Some ''A'', Some ''zumbaa'', Some ''Copper''),
        (Some ''B'', Some ''calcimag'', Some ''Copper''), (Some ''A'', None, Some ''Copper''),
        (None, Some ''simba'', None)]"
  by code_simp

lemma category_share_total:
  "sum_list (map snd (category_share data)) = sum_list (map item_total data)"
  using groupby_sum_total [of "\<lambda>r. Some (category r)" item_total data]
  by (simp add: category_share_def comp_def)

lemma category_share_pct_zero_total:
  assumes "sum_list (map item_total data) = 0"
    and "(cat, amt, p) \<in> set (category_share_pct data)"
  shows "p \<in> {NaN, PosInf, NegInf}"
proof -
  have "pd_round1 (pd_times (pd_div a 0) 100) \<in> {NaN, PosInf, NegInf}" for a
    by (simp add: pd_div_def pd_times_def pd_round1_def)
  then show ?thesis
    using assms by (auto simp: category_share_pct_def Let_def category_share_total)
qed

lemma pct_full_zero_total:
  assumes total: "group_sum customer_name item_total df c = 0"
    and nonneg: "\<And>r. r \<in> set df \<Longrightarrow> 0 \<le> item_total r"
  shows "pct_full df cat c = 0"
proof -
  let ?X = "filter (\<lambda>r. customer_name r = Some c) df"
  have a: "amt_full df cat c = sum_list (map item_total (filter (\<lambda>r. category r = cat) ?X))"
    by (simp add: amt_full_def group_sum_def conj_commute)
  have "sum_list (map item_total ?X)
        = sum_list (map item_total (filter (\<lambda>r. category r = cat) ?X))
          + sum_list (map item_total (filter (\<lambda>r. \<not> category r = cat) ?X))"
    by (rule sum_list_filter_split)
  moreover have "0 \<le> sum_list (map item_total (filter (\<lambda>r. category r = cat) ?X))"
    by (rule sum_list_nonneg) (auto simp: nonneg)
  moreover have "0 \<le> sum_list (map item_total (filter (\<lambda>r. \<not> category r = cat) ?X))"
    by (rule sum_list_nonneg) (auto simp: nonneg)
  moreover have "sum_list (map item_total ?X) = 0"
    using total by (simp add: group_sum_def)
  ultimately have "amt_full df cat c = 0" using a by linarith
  then show ?thesis by (simp add: pct_full_def Let_def)
qed

lemma heatmap_columns_sorted: "sorted (map month_key (heatmap_columns sub_df))"
  by (simp add: heatmap_columns_def)

section \<open>Month labels\<close>

text \<open>
  The heat map reads its column labels back as dates in order to sort them. A label that
  \<^verbatim>\<open>strftime\<close> has written for a date can always be read back, and for the years 1969 to
  2068 it is read back as the month it was written for; the value that \<open>month_key\<close>
  gives to an unreadable label is never used on the labels of the table.
\<close>

lemma digit_table: "\<forall>k \<in> set [0..<10]. digit_val (''0123456789'' ! k) = Some k"
  by code_simp

lemma digit_val_digit_char: "digit_val (digit_char n) = Some (n mod 10)"
proof -
  have "n mod 10 \<in> set [0..<10]" by simp
  with digit_table show ?thesis unfolding digit_char_def by blast
qed

lemma month_table:
  "\<forall>k \<in> set [0..<12]. length (month_names ! k) = 3 \<and> month_index (month_names ! k) = Some (k + 1)"
  by code_simp

lemma parse_b_y_strftime:
  assumes "1 \<le> m" and "m \<le> 12"
  shows "Option.bind (strftime_b_y (Some (y, m, d))) parse_b_y
         = Some (if y mod 100 \<le> 68 then 2000 + y mod 100 else 1900 + y mod 100, m)"
proof -
  let ?k = "(m - 1) mod 12"
  have k: "?k \<in> set [0..<12]" by simp
  have km: "?k + 1 = m" using assms by simp
  from month_table k have len: "length (month_names ! ?k) = 3"
    and idx: "month_index (month_names ! ?k) = Some (?k + 1)" by blast+
  from len obtain a b c where abc: "month_names ! ?k = [a, b, c]"
    by (auto simp: length_Suc_conv numeral_3_eq_3)
  have "y mod 100 div 10 < 10"
    by (rule less_mult_imp_div_less) simp
  then have "10 * (y mod 100 div 10 mod 10) + y mod 100 mod 10
             = 10 * (y mod 100 div 10) + y mod 100 mod 10"
    by simp
  also have "\<dots> = y mod 100"
    by (rule mult_div_mod_eq)
  finally have yy: "10 * (y mod 100 div 10 mod 10) + y mod 100 mod 10 = y mod 100" .
  have lab: "strftime_b_y (Some (y, m, d)) = Some ([a, b, c] @ '' '' @ digits2 (y mod 100))"
    by (simp only: strftime_b_y_def option.case prod.case abc)
  have idx': "month_index [a, b, c] = Some m"
    using idx unfolding abc km .
  have "parse_b_y ([a, b, c] @ '' '' @ digits2 (y mod 100))
        = Some (if y mod 100 \<le> 68 then 2000 + y mod 100 else 1900 + y mod 100, m)"
    by (simp add: parse_b_y_def digits2_def idx' digit_val_digit_char Let_def yy)
  then show ?thesis by (simp only: lab Option.bind.simps)
qed

lemma month_key_strftime:
  assumes "1 \<le> m" and "m \<le> 12" and "1969 \<le> y" and "y \<le> 2068"
    and "strftime_b_y (Some (y, m, d)) = Some label"
  shows "month_key label = (y, m)"
proof -
  have "parse_b_y label
        = Some (if y mod 100 \<le> 68 then 2000 + y mod 100 else 1900 + y mod 100, m)"
    using parse_b_y_strftime [OF assms(1,2), of y d] assms(5) by simp
  moreover have "(if y mod 100 \<le> 68 then 2000 + y mod 100 else 1900 + y mod 100) = y"
  proof (cases "y < 2000")
    case True
    have "y mod 100 = y - 1900"
      using True assms(3) by (intro mod_nat_eqI) simp_all
    then show ?thesis using True assms(3) by simp
  next
    case False
    have "y mod 100 = y - 2000"
      using False assms(4) by (intro mod_nat_eqI) simp_all
    then show ?thesis using False assms(4) by simp
  qed
  ultimately show ?thesis by (simp add: month_key_def)
qed

lemma load_app_3_date:
  "r \<in> set (load_app_3 parse raws)
   \<Longrightarrow> challan_date r \<in> to_datetime_coerce parse ` raw_challan_date ` set raws"
  by (auto simp: load_app_3_def merge_customer_type_def base_rows_3_def)

lemma load_app_3_month_label:
  assumes valid: "\<And>s y m d. parse s = Some (y, m, d) \<Longrightarrow> 1 \<le> m \<and> m \<le> 12"
    and r: "r \<in> set (load_app_3 parse raws)" and l: "month r = Some label"
  shows "parse_b_y label \<noteq> None"
proof -
  have mo: "month r = strftime_b_y (challan_date r)"
    using r by (rule load_app_3_month)
  from l mo obtain y m d where date: "challan_date r = Some (y, m, d)"
    by (cases "challan_date r") (auto simp: strftime_b_y_def)
  from load_app_3_date [OF r] date obtain s where "to_datetime_coerce parse s = Some (y, m, d)"
    by auto
  then have "parse s = Some (y, m, d)"
    by (simp add: to_datetime_coerce_def split: if_splits)
  then have m: "1 \<le> m" "m \<le> 12" using valid by blast+
  have "Option.bind (Some label) parse_b_y
        = Some (if y mod 100 \<le> 68 then 2000 + y mod 100 else 1900 + y mod 100, m)"
    using parse_b_y_strftime [OF m, of y d] l mo date by simp
  then show ?thesis by simp
qed

end
